theory Spec2Isabelle
  imports Complex_Main "HOL-Library.Word"
begin

section \<open>SceneManager.cpp: data model\<close>

text \<open>
  The unit stores and forwards \<open>float\<close> values; it never computes with them (all the
  arithmetic is inside GLM). A \<open>float\<close> is therefore carried as the number its literal
  denotes.
\<close>

type_synonym float = real
type_synonym vec2 = "float \<times> float"
type_synonym vec3 = "float \<times> float \<times> float"
type_synonym vec4 = "float \<times> float \<times> float \<times> float"
type_synonym GLuint = "32 word"

text \<open>
  GLM is an external library. The five operations \<open>SetTransformations\<close> uses are
  parameters of the model: \<open>glm::scale\<close>, \<open>glm::rotate\<close>, \<open>glm::translate\<close>,
  \<open>glm::radians\<close> and \<open>operator*\<close> on \<open>glm::mat4\<close>; \<open>'m\<close> is \<open>glm::mat4\<close>.
\<close>

record 'm GLM =
  glm_scale :: "vec3 \<Rightarrow> 'm"
  glm_rotate :: "float \<Rightarrow> vec3 \<Rightarrow> 'm"
  glm_translate :: "vec3 \<Rightarrow> 'm"
  glm_radians :: "float \<Rightarrow> float"
  mat4_mul :: "'m \<Rightarrow> 'm \<Rightarrow> 'm"

text \<open>\<open>struct TEXTURE_INFO\<close> and \<open>struct OBJECT_MATERIAL\<close> (fields as the code uses them).\<close>

record TEXTURE_INFO =
  ID :: GLuint
  tag :: string

record OBJECT_MATERIAL =
  diffuseColor :: vec3
  specularColor :: vec3
  shininess :: float
  mtag :: string

datatype mesh = PlaneMesh | SphereMesh | CylinderMesh | BoxMesh | ConeMesh | PrismMesh
  | Pyramid4Mesh | TaperedCylinderMesh

datatype 'm uniform_value =
    IntValue int
  | BoolValue bool
  | FloatValue float
  | Vec2Value vec2
  | Vec3Value vec3
  | Vec4Value vec4
  | Mat4Value 'm
  | Sampler2DValue int

datatype tex_format = GL_RGB8 | GL_RGBA8

datatype tex_param = GL_TEXTURE_WRAP_S | GL_TEXTURE_WRAP_T | GL_TEXTURE_MIN_FILTER
  | GL_TEXTURE_MAG_FILTER

datatype tex_param_value = GL_REPEAT | GL_LINEAR

text \<open>
  Everything the unit sends to the GPU, in program order: its own OpenGL calls, the
  uniform writes it makes through the \<open>ShaderManager\<close> and the draws it asks of
  \<open>ShapeMeshes\<close>.
\<close>

datatype 'm gl_call =
    GenTextures GLuint
  | DeleteTextures GLuint
  | BindTexture GLuint
  | ActiveTexture int
  | TexParameteri tex_param tex_param_value
  | TexImage2D tex_format int int
  | GenerateMipmap
  | SetUniform string "'m uniform_value"
  | DrawMesh mesh

text \<open>
  The OpenGL context. \<open>calls\<close> is the command stream, oldest first. \<open>glGenTextures\<close>
  returns a name chosen by the driver: \<open>gen_names k\<close> is the name the \<open>k\<close>-th call
  returns (a parameter of the model), \<open>gen_count\<close> the number of calls so far.
\<close>

record 'm GL =
  calls :: "'m gl_call list"
  gen_names :: "nat \<Rightarrow> GLuint"
  gen_count :: nat

text \<open>
  The members of \<open>class SceneManager\<close>. \<open>m_pShaderManager\<close> is \<open>None\<close> for \<open>NULL\<close>
  and \<open>Some a\<close> for a pointer to the \<open>ShaderManager\<close> at address \<open>a\<close>.
  \<open>m_textureIDs\<close> is a C array: its length is fixed, every update keeps it, and an
  index outside it is undefined behaviour (an error of the model).
\<close>

record SceneManager =
  m_pShaderManager :: "nat option"
  m_loadedTextures :: int
  m_textureIDs :: "TEXTURE_INFO list"
  m_objectMaterials :: "OBJECT_MATERIAL list"

datatype error = OutOfBounds | NullDereference

text \<open>Modelled from the spec: the capacity of \<open>m_textureIDs\<close>, declared in
  \<open>SceneManager.h\<close>; the spec (3, 4.1) and the comments of the code give 16 slots.\<close>

definition MAX_TEXTURES :: nat where
  "MAX_TEXTURES = 16"

subsection \<open>The collaborators\<close>

text \<open>Modelled from the spec: the setters of \<open>ShaderManager\<close> (spec 6: named-uniform
  setters for boolean, integer, float, vector, matrix and sampler values). A setter
  writes one named uniform.\<close>

definition setValue :: "string \<Rightarrow> 'm uniform_value \<Rightarrow> 'm GL \<Rightarrow> 'm GL" where
  "setValue name v gl = gl\<lparr>calls := calls gl @ [SetUniform name v]\<rparr>"

text \<open>Modelled from the spec: \<open>ShapeMeshes::Draw<Shape>Mesh\<close> (spec 6: issues the GPU
  draw call using whatever transform, material and texture state is live).\<close>

definition DrawShapeMesh :: "mesh \<Rightarrow> 'm GL \<Rightarrow> 'm GL" where
  "DrawShapeMesh m gl = gl\<lparr>calls := calls gl @ [DrawMesh m]\<rparr>"

definition glCall :: "'m gl_call \<Rightarrow> 'm GL \<Rightarrow> 'm GL" where
  "glCall c gl = gl\<lparr>calls := calls gl @ [c]\<rparr>"

definition glGenTextures :: "'m GL \<Rightarrow> GLuint \<times> 'm GL" where
  "glGenTextures gl =
     (let n = gen_names gl (gen_count gl)
      in (n, gl\<lparr>calls := calls gl @ [GenTextures n], gen_count := gen_count gl + 1\<rparr>))"

text \<open>The value a uniform holds: the last one written to it.\<close>

fun uniform_of :: "'m gl_call list \<Rightarrow> string \<Rightarrow> 'm uniform_value option" where
  "uniform_of [] name = None"
| "uniform_of (SetUniform n v # cs) name =
     (case uniform_of cs name of Some w \<Rightarrow> Some w
      | None \<Rightarrow> (if n = name then Some v else None))"
| "uniform_of (c # cs) name = uniform_of cs name"

section \<open>The material registry\<close>

text \<open>
  The loop of \<open>FindMaterial\<close>. The comparison \<open>index < m_objectMaterials.size()\<close> is
  unsigned, so a negative \<open>index\<close> would end the loop.
\<close>

function FindMaterial_loop ::
  "OBJECT_MATERIAL list \<Rightarrow> string \<Rightarrow> int \<Rightarrow> bool \<Rightarrow> OBJECT_MATERIAL
     \<Rightarrow> int \<times> bool \<times> OBJECT_MATERIAL" where
  "FindMaterial_loop ms t index bFound material =
     (if (0 \<le> index \<and> index < int (length ms)) \<and> bFound = False then
        (if mtag (ms ! nat index) = t then
           FindMaterial_loop ms t index True
             (material\<lparr>diffuseColor := diffuseColor (ms ! nat index),
                       specularColor := specularColor (ms ! nat index),
                       shininess := shininess (ms ! nat index)\<rparr>)
         else FindMaterial_loop ms t (index + 1) bFound material)
      else (index, bFound, material))"
  by pat_completeness auto
termination
  by (relation "measure (\<lambda>(ms, t, index, bFound, material).
        2 * nat (int (length ms) - index) + (if bFound then 0 else 1))") auto

declare FindMaterial_loop.simps [simp del]

text \<open>\<open>FindMaterial(tag, material)\<close>: the result and the out-parameter.\<close>

definition FindMaterial ::
  "SceneManager \<Rightarrow> string \<Rightarrow> OBJECT_MATERIAL \<Rightarrow> bool \<times> OBJECT_MATERIAL" where
  "FindMaterial sm t material =
     (if length (m_objectMaterials sm) = 0 then (False, material)
      else (case FindMaterial_loop (m_objectMaterials sm) t 0 False material of
              (index, bFound, material') \<Rightarrow> (True, material')))"

text \<open>
  \<open>SetShaderMaterial\<close>. The local \<open>OBJECT_MATERIAL material\<close> is not initialised:
  \<open>uninit\<close> is what it holds when \<open>FindMaterial\<close> is called. \<open>m_pShaderManager\<close>
  is dereferenced without a check.
\<close>

definition SetShaderMaterial ::
  "SceneManager \<Rightarrow> OBJECT_MATERIAL \<Rightarrow> string \<Rightarrow> 'm GL \<Rightarrow> error + 'm GL" where
  "SetShaderMaterial sm uninit materialTag gl =
     (if length (m_objectMaterials sm) > 0 then
        (case FindMaterial sm materialTag uninit of
           (bReturn, material) \<Rightarrow>
             if bReturn = True then
               (case m_pShaderManager sm of
                  None \<Rightarrow> Inl NullDereference
                | Some p \<Rightarrow>
                    Inr (setValue ''material.shininess'' (FloatValue (shininess material))
                          (setValue ''material.specularColor'' (Vec3Value (specularColor material))
                            (setValue ''material.diffuseColor'' (Vec3Value (diffuseColor material))
                              gl))))
             else Inr gl)
      else Inr gl)"

text \<open>\<open>DefineObjectMaterials\<close>: eight \<open>push_back\<close>s.\<close>

definition DefineObjectMaterials :: "SceneManager \<Rightarrow> SceneManager" where
  "DefineObjectMaterials sm =
     sm\<lparr>m_objectMaterials := m_objectMaterials sm @
       [\<lparr>diffuseColor = (0.5, 0.5, 0.5), specularColor = (0.6, 0.6, 0.6),
          shininess = 70.0, mtag = ''metal''\<rparr>,
        \<lparr>diffuseColor = (0.3, 0.3, 0.3), specularColor = (0.4, 0.4, 0.4),
          shininess = 40.0, mtag = ''wood''\<rparr>,
        \<lparr>diffuseColor = (0.2, 0.2, 0.2), specularColor = (1.0, 1.0, 1.0),
          shininess = 95.0, mtag = ''glass''\<rparr>,
        \<lparr>diffuseColor = (0.4, 0.4, 0.4), specularColor = (0.5, 0.5, 0.5),
          shininess = 40.0, mtag = ''vase''\<rparr>,
        \<lparr>diffuseColor = (0.8, 0.8, 0.9), specularColor = (0.0, 0.0, 0.0),
          shininess = 2.0, mtag = ''wall''\<rparr>,
        \<lparr>diffuseColor = (0.4, 0.2, 0.4), specularColor = (0.1, 0.05, 0.1),
          shininess = 0.30, mtag = ''leaf''\<rparr>,
        \<lparr>diffuseColor = (0.5, 0.5, 0.5), specularColor = (0.0, 0.0, 0.0),
          shininess = 1.0, mtag = ''paper''\<rparr>,
        \<lparr>diffuseColor = (0.5, 0.5, 0.5), specularColor = (0.0, 0.0, 0.0),
          shininess = 1.0, mtag = ''fabric''\<rparr>]\<rparr>"

section \<open>The texture registry\<close>

text \<open>
  What \<open>stbi_load\<close> gives for a file name is a parameter of the model: \<open>None\<close> when
  the file cannot be read or decoded, otherwise the size and the channel count of the image.
\<close>

record stb_image =
  width :: int
  height :: int
  colorChannels :: int

text \<open>
  \<open>CreateGLTexture\<close>. The console output, \<open>stbi_set_flip_vertically_on_load\<close> and
  \<open>stbi_image_free\<close> are left out. The store into \<open>m_textureIDs[m_loadedTextures]\<close> is
  checked against the array.
\<close>

definition CreateGLTexture ::
  "(string \<Rightarrow> stb_image option) \<Rightarrow> string \<Rightarrow> string \<Rightarrow> SceneManager \<Rightarrow> 'm GL
     \<Rightarrow> error + (bool \<times> SceneManager \<times> 'm GL)" where
  "CreateGLTexture stbi_load filename t sm gl =
     (case stbi_load filename of
        Some img \<Rightarrow>
          (case glGenTextures gl of
             (textureID, gl1) \<Rightarrow>
               (let gl2 = glCall (BindTexture textureID) gl1;
                    gl3 = glCall (TexParameteri GL_TEXTURE_WRAP_S GL_REPEAT) gl2;
                    gl4 = glCall (TexParameteri GL_TEXTURE_WRAP_T GL_REPEAT) gl3;
                    gl5 = glCall (TexParameteri GL_TEXTURE_MIN_FILTER GL_LINEAR) gl4;
                    gl6 = glCall (TexParameteri GL_TEXTURE_MAG_FILTER GL_LINEAR) gl5;
                    uploaded =
                      (if colorChannels img = 3 then
                         Some (glCall (TexImage2D GL_RGB8 (width img) (height img)) gl6)
                       else if colorChannels img = 4 then
                         Some (glCall (TexImage2D GL_RGBA8 (width img) (height img)) gl6)
                       else None)
                in (case uploaded of
                      None \<Rightarrow> Inr (False, sm, gl6)
                    | Some gl7 \<Rightarrow>
                        (let gl8 = glCall GenerateMipmap gl7;
                             gl9 = glCall (BindTexture 0) gl8;
                             i = m_loadedTextures sm
                         in if 0 \<le> i \<and> i < int (length (m_textureIDs sm)) then
                              Inr (True,
                                   sm\<lparr>m_textureIDs := (m_textureIDs sm)
                                         [nat i := (m_textureIDs sm ! nat i)
                                            \<lparr>ID := textureID, tag := t\<rparr>],
                                       m_loadedTextures := i + 1\<rparr>,
                                   gl9)
                            else Inl OutOfBounds))))
      | None \<Rightarrow> Inr (False, sm, gl))"

text \<open>\<open>BindGLTextures\<close>: the loop from \<open>i\<close>.\<close>

function BindGLTextures_loop :: "SceneManager \<Rightarrow> int \<Rightarrow> 'm GL \<Rightarrow> error + 'm GL" where
  "BindGLTextures_loop sm i gl =
     (if i < m_loadedTextures sm then
        (if 0 \<le> i \<and> i < int (length (m_textureIDs sm)) then
           BindGLTextures_loop sm (i + 1)
             (glCall (BindTexture (ID (m_textureIDs sm ! nat i))) (glCall (ActiveTexture i) gl))
         else Inl OutOfBounds)
      else Inr gl)"
  by pat_completeness auto
termination
  by (relation "measure (\<lambda>(sm, i, gl). nat (m_loadedTextures sm - i))") auto

declare BindGLTextures_loop.simps [simp del]

definition BindGLTextures :: "SceneManager \<Rightarrow> 'm GL \<Rightarrow> error + 'm GL" where
  "BindGLTextures sm gl = BindGLTextures_loop sm 0 gl"

text \<open>\<open>DestroyGLTextures\<close>: the loop from \<open>i\<close>. Each round calls
  \<open>glGenTextures(1, &m_textureIDs[i].ID)\<close>, which stores the new name in the slot.\<close>

function DestroyGLTextures_loop ::
  "int \<Rightarrow> SceneManager \<Rightarrow> 'm GL \<Rightarrow> error + (SceneManager \<times> 'm GL)" where
  "DestroyGLTextures_loop i sm gl =
     (if i < m_loadedTextures sm then
        (if 0 \<le> i \<and> i < int (length (m_textureIDs sm)) then
           DestroyGLTextures_loop (i + 1)
             (sm\<lparr>m_textureIDs := (m_textureIDs sm)
                   [nat i := (m_textureIDs sm ! nat i)\<lparr>ID := fst (glGenTextures gl)\<rparr>]\<rparr>)
             (snd (glGenTextures gl))
         else Inl OutOfBounds)
      else Inr (sm, gl))"
  by pat_completeness auto
termination
  by (relation "measure (\<lambda>(i, sm, gl). nat (m_loadedTextures sm - i))") auto

declare DestroyGLTextures_loop.simps [simp del]

definition DestroyGLTextures :: "SceneManager \<Rightarrow> 'm GL \<Rightarrow> error + (SceneManager \<times> 'm GL)" where
  "DestroyGLTextures sm gl = DestroyGLTextures_loop 0 sm gl"

text \<open>
  \<open>FindTextureID\<close>: the loop, with the locals \<open>textureID\<close>, \<open>index\<close> and \<open>bFound\<close>.
  The \<open>GLuint\<close> that \<open>CreateGLTexture\<close> stored is read into an \<open>int\<close>.
\<close>

function FindTextureID_loop ::
  "SceneManager \<Rightarrow> string \<Rightarrow> int \<Rightarrow> int \<Rightarrow> bool \<Rightarrow> error + int" where
  "FindTextureID_loop sm t textureID index bFound =
     (if index < m_loadedTextures sm \<and> bFound = False then
        (if 0 \<le> index \<and> index < int (length (m_textureIDs sm)) then
           (if tag (m_textureIDs sm ! nat index) = t then
              FindTextureID_loop sm t (sint (ID (m_textureIDs sm ! nat index))) index True
            else FindTextureID_loop sm t textureID (index + 1) bFound)
         else Inl OutOfBounds)
      else Inr textureID)"
  by pat_completeness auto
termination
  by (relation "measure (\<lambda>(sm, t, textureID, index, bFound).
        2 * nat (m_loadedTextures sm - index) + (if bFound then 0 else 1))") auto

declare FindTextureID_loop.simps [simp del]

definition FindTextureID :: "SceneManager \<Rightarrow> string \<Rightarrow> error + int" where
  "FindTextureID sm t = FindTextureID_loop sm t (- 1) 0 False"

text \<open>\<open>FindTextureSlot\<close>: the loop, with the locals \<open>textureSlot\<close>, \<open>index\<close> and
  \<open>bFound\<close>.\<close>

function FindTextureSlot_loop ::
  "SceneManager \<Rightarrow> string \<Rightarrow> int \<Rightarrow> int \<Rightarrow> bool \<Rightarrow> error + int" where
  "FindTextureSlot_loop sm t textureSlot index bFound =
     (if index < m_loadedTextures sm \<and> bFound = False then
        (if 0 \<le> index \<and> index < int (length (m_textureIDs sm)) then
           (if tag (m_textureIDs sm ! nat index) = t then
              FindTextureSlot_loop sm t index index True
            else FindTextureSlot_loop sm t textureSlot (index + 1) bFound)
         else Inl OutOfBounds)
      else Inr textureSlot)"
  by pat_completeness auto
termination
  by (relation "measure (\<lambda>(sm, t, textureSlot, index, bFound).
        2 * nat (m_loadedTextures sm - index) + (if bFound then 0 else 1))") auto

declare FindTextureSlot_loop.simps [simp del]

definition FindTextureSlot :: "SceneManager \<Rightarrow> string \<Rightarrow> error + int" where
  "FindTextureSlot sm t = FindTextureSlot_loop sm t (- 1) 0 False"

text \<open>
  \<open>LoadSceneTextures\<close>: fourteen calls of \<open>CreateGLTexture\<close>, whose results are
  dropped, then \<open>BindGLTextures\<close>.
\<close>

definition scene_textures :: "(string \<times> string) list" where
  "scene_textures =
     [(''textures/leaf.jpg'', ''leaf''),
      (''textures/vase.jpg'', ''vase''),
      (''textures/floor.jpg'', ''floor''),
      (''textures/wall.jpg'', ''wall''),
      (''textures/ottoman.jpg'', ''ottoman''),
      (''textures/pillow.jpg'', ''pillow''),
      (''textures/bookshelf.jpg'', ''bookshelf''),
      (''textures/picture.jpg'', ''picture''),
      (''textures/rug.jpg'', ''rug''),
      (''textures/lamp_bot.jpg'', ''lamp_bot''),
      (''textures/lamp_top.jpg'', ''lamp_top''),
      (''textures/books.jpg'', ''books''),
      (''textures/book2.jpg'', ''book2''),
      (''textures/snowglobe_bot.jpg'', ''snowglobe_bot'')]"

fun CreateGLTextures ::
  "(string \<Rightarrow> stb_image option) \<Rightarrow> (string \<times> string) list \<Rightarrow> SceneManager \<Rightarrow> 'm GL
     \<Rightarrow> error + (SceneManager \<times> 'm GL)" where
  "CreateGLTextures stbi_load [] sm gl = Inr (sm, gl)"
| "CreateGLTextures stbi_load ((filename, t) # rest) sm gl =
     (case CreateGLTexture stbi_load filename t sm gl of
        Inl e \<Rightarrow> Inl e
      | Inr (bReturn, sm', gl') \<Rightarrow> CreateGLTextures stbi_load rest sm' gl')"

definition LoadSceneTextures ::
  "(string \<Rightarrow> stb_image option) \<Rightarrow> SceneManager \<Rightarrow> 'm GL \<Rightarrow> error + (SceneManager \<times> 'm GL)" where
  "LoadSceneTextures stbi_load sm gl =
     (case CreateGLTextures stbi_load scene_textures sm gl of
        Inl e \<Rightarrow> Inl e
      | Inr (sm', gl') \<Rightarrow>
          (case BindGLTextures sm' gl' of Inl e \<Rightarrow> Inl e | Inr gl'' \<Rightarrow> Inr (sm', gl'')))"

section \<open>The transform composer and the render state dispatcher\<close>

definition SetTransformations ::
  "'m GLM \<Rightarrow> SceneManager \<Rightarrow> vec3 \<Rightarrow> float \<Rightarrow> float \<Rightarrow> float \<Rightarrow> vec3 \<Rightarrow> 'm GL \<Rightarrow> 'm GL" where
  "SetTransformations g sm scaleXYZ XrotationDegrees YrotationDegrees ZrotationDegrees
       positionXYZ gl =
     (let scale = glm_scale g scaleXYZ;
          rotationX = glm_rotate g (glm_radians g XrotationDegrees) (1.0, 0.0, 0.0);
          rotationY = glm_rotate g (glm_radians g YrotationDegrees) (0.0, 1.0, 0.0);
          rotationZ = glm_rotate g (glm_radians g ZrotationDegrees) (0.0, 0.0, 1.0);
          translation = glm_translate g positionXYZ;
          modelView =
            mat4_mul g (mat4_mul g (mat4_mul g (mat4_mul g translation rotationZ) rotationY)
              rotationX) scale
      in (case m_pShaderManager sm of
            None \<Rightarrow> gl
          | Some p \<Rightarrow> setValue ''model'' (Mat4Value modelView) gl))"

text \<open>\<open>SetShaderColor\<close>; \<open>setIntValue(g_UseTextureName, false)\<close> passes 0.\<close>

definition SetShaderColor ::
  "SceneManager \<Rightarrow> float \<Rightarrow> float \<Rightarrow> float \<Rightarrow> float \<Rightarrow> 'm GL \<Rightarrow> 'm GL" where
  "SetShaderColor sm redColorValue greenColorValue blueColorValue alphaValue gl =
     (let currentColor = (redColorValue, greenColorValue, blueColorValue, alphaValue)
      in (case m_pShaderManager sm of
            None \<Rightarrow> gl
          | Some p \<Rightarrow>
              setValue ''objectColor'' (Vec4Value currentColor)
                (setValue ''bUseTexture'' (IntValue 0) gl)))"

text \<open>\<open>SetShaderTexture\<close>; \<open>setIntValue(g_UseTextureName, true)\<close> passes 1.\<close>

definition SetShaderTexture :: "SceneManager \<Rightarrow> string \<Rightarrow> 'm GL \<Rightarrow> error + 'm GL" where
  "SetShaderTexture sm textureTag gl =
     (case m_pShaderManager sm of
        None \<Rightarrow> Inr gl
      | Some p \<Rightarrow>
          (let gl1 = setValue ''bUseTexture'' (IntValue 1) gl
           in (case FindTextureSlot sm textureTag of
                 Inl e \<Rightarrow> Inl e
               | Inr textureID \<Rightarrow>
                   Inr (setValue ''objectTexture'' (Sampler2DValue textureID) gl1))))"

definition SetTextureUVScale :: "SceneManager \<Rightarrow> float \<Rightarrow> float \<Rightarrow> 'm GL \<Rightarrow> 'm GL" where
  "SetTextureUVScale sm u v gl =
     (case m_pShaderManager sm of
        None \<Rightarrow> gl
      | Some p \<Rightarrow> setValue ''UVscale'' (Vec2Value (u, v)) gl)"

section \<open>RenderScene\<close>

text \<open>
  \<open>RenderScene\<close> is straight-line code: for each object it assigns the five transform
  variables and then calls the dispatcher and one draw of \<open>m_basicMeshes\<close>. It is kept as
  the list of its calls, in program order, each with the values its arguments hold at
  the call; calls that are commented out in the source are not in the list.
\<close>

datatype scene_call =
    Call_SetTransformations vec3 float float float vec3
  | Call_SetShaderColor float float float float
  | Call_SetShaderTexture string
  | Call_SetShaderMaterial string
  | Call_DrawMesh mesh

definition RenderScene_calls :: "scene_call list" where
  "RenderScene_calls =
     [Call_SetTransformations (20.0, 1.0, 20.0) 0.0 0.0 0.0 (0.0, 0.0, 0.0),
      Call_SetShaderTexture ''floor'',
      Call_SetShaderMaterial ''wood'',
      Call_DrawMesh PlaneMesh,
      Call_SetTransformations (20.0, 1.0, 20.0) 90.0 90.0 0.0 (20.0, 20.0, 0.0),
      Call_SetShaderTexture ''wall'',
      Call_SetShaderMaterial ''wall'',
      Call_DrawMesh PlaneMesh,
      Call_SetTransformations (20.0, 1.0, 20.0) 90.0 0.0 90.0 (0.0, 20.0, - 20.0),
      Call_SetShaderTexture ''wall'',
      Call_SetShaderMaterial ''wall'',
      Call_DrawMesh PlaneMesh,
      Call_SetTransformations (0.5, 1.5, 0.5) 45.0 (- 90.0) 0.0 (- 0.5, 3.0, 0.0),
      Call_SetShaderTexture ''leaf'',
      Call_SetShaderMaterial ''leaf'',
      Call_DrawMesh Pyramid4Mesh,
      Call_SetTransformations (0.5, 1.5, 0.5) (- 45.0) 0.0 0.0 (0.0, 3.0, - 0.5),
      Call_SetShaderTexture ''leaf'',
      Call_SetShaderMaterial ''leaf'',
      Call_DrawMesh Pyramid4Mesh,
      Call_SetTransformations (0.5, 1.5, 0.5) 45.0 0.0 0.0 (0.0, 3.0, 0.5),
      Call_SetShaderTexture ''leaf'',
      Call_SetShaderMaterial ''leaf'',
      Call_DrawMesh Pyramid4Mesh,
      Call_SetTransformations (0.5, 1.5, 0.5) (- 45.0) (- 90.0) 0.0 (0.5, 3.0, 0.0),
      Call_SetShaderTexture ''leaf'',
      Call_SetShaderMaterial ''leaf'',
      Call_DrawMesh Pyramid4Mesh,
      Call_SetTransformations (0.5, 1.5, 0.5) 0.0 0.0 0.0 (0.0, 3.2, 0.0),
      Call_SetShaderTexture ''leaf'',
      Call_SetShaderMaterial ''leaf'',
      Call_DrawMesh Pyramid4Mesh,
      Call_SetTransformations (1.0, 1.5, 1.0) 180.0 0.0 0.0 (0.0, 2.4, 0.0),
      Call_SetShaderTexture ''vase'',
      Call_SetShaderMaterial ''vase'',
      Call_DrawMesh TaperedCylinderMesh,
      Call_SetTransformations (6.0, 5.0, 6.0) 0.0 0.0 0.0 (14.0, 0.0, 5.0),
      Call_SetShaderTexture ''ottoman'',
      Call_SetShaderMaterial ''fabric'',
      Call_DrawMesh CylinderMesh,
      Call_SetTransformations (5.0, 1.0, 5.0) (- 75.0) 120.0 0.0 (16.0, 7.5, 3.0),
      Call_SetShaderTexture ''pillow'',
      Call_SetShaderMaterial ''fabric'',
      Call_DrawMesh BoxMesh,
      Call_SetTransformations (5.0, 1.0, 5.0) 90.0 90.0 (- 20.0) (18.0, 7.5, 6.0),
      Call_SetShaderTexture ''pillow'',
      Call_SetShaderMaterial ''fabric'',
      Call_DrawMesh BoxMesh,
      Call_SetTransformations (15.0, 0.5, 20.0) 90.0 0.0 0.0 (10.8, 10.0, - 20.0),
      Call_SetShaderTexture ''bookshelf'',
      Call_SetShaderMaterial ''wood'',
      Call_DrawMesh BoxMesh,
      Call_SetTransformations (7.0, 0.5, 15.0) 0.0 90.0 0.0 (10.8, 10.0, - 18.0),
      Call_SetShaderTexture ''bookshelf'',
      Call_SetShaderMaterial ''wood'',
      Call_DrawMesh BoxMesh,
      Call_SetTransformations (7.0, 0.5, 15.0) 0.0 90.0 0.0 (10.8, 15.0, - 18.0),
      Call_SetShaderTexture ''bookshelf'',
      Call_SetShaderMaterial ''wood'',
      Call_DrawMesh BoxMesh,
      Call_SetTransformations (7.0, 0.5, 15.0) 0.0 90.0 0.0 (10.8, 5.0, - 18.0),
      Call_SetShaderTexture ''bookshelf'',
      Call_SetShaderMaterial ''wood'',
      Call_DrawMesh BoxMesh,
      Call_SetTransformations (7.0, 0.5, 15.0) 0.0 90.0 0.0 (10.8, 20.0, - 18.0),
      Call_SetShaderTexture ''bookshelf'',
      Call_SetShaderMaterial ''wood'',
      Call_DrawMesh BoxMesh,
      Call_SetTransformations (7.0, 0.5, 15.0) 0.0 90.0 0.0 (10.8, 0.0, - 18.0),
      Call_SetShaderTexture ''bookshelf'',
      Call_SetShaderMaterial ''wood'',
      Call_DrawMesh BoxMesh,
      Call_SetTransformations (7.0, 0.5, 20.0) 90.0 90.0 0.0 (3.4, 10.0, - 18.0),
      Call_SetShaderTexture ''bookshelf'',
      Call_SetShaderMaterial ''wood'',
      Call_DrawMesh BoxMesh,
      Call_SetTransformations (7.0, 0.5, 20.0) 90.0 90.0 0.0 (18.4, 10.0, - 18.0),
      Call_SetShaderTexture ''bookshelf'',
      Call_SetShaderMaterial ''wood'',
      Call_DrawMesh BoxMesh,
      Call_SetTransformations (8.0, 0.5, 11.0) 90.0 90.0 0.0 (19.8, 20.0, 0.0),
      Call_SetShaderTexture ''picture'',
      Call_SetShaderMaterial ''paper'',
      Call_DrawMesh BoxMesh,
      Call_SetTransformations (10.0, 0.3, 15.0) 0.0 0.0 0.0 (0.0, 0.0, 0.0),
      Call_SetShaderTexture ''rug'',
      Call_SetShaderMaterial ''fabric'',
      Call_DrawMesh BoxMesh,
      Call_SetTransformations (2.0, 3.5, 2.0) 0.0 0.0 0.0 (- 2.0, 13.0, - 17.0),
      Call_SetShaderColor 0.3 0.3 0.3 0.3,
      Call_SetShaderTexture ''lamp_top'',
      Call_SetShaderMaterial ''paper'',
      Call_DrawMesh TaperedCylinderMesh,
      Call_SetTransformations (0.3, 13.0, 0.3) 0.0 0.0 0.0 (- 2.0, 0.5, - 17.0),
      Call_SetShaderTexture ''lamp_bot'',
      Call_SetShaderMaterial ''metal'',
      Call_DrawMesh CylinderMesh,
      Call_SetTransformations (2.0, 0.5, 2.0) 0.0 0.0 0.0 (- 2.0, 0.0, - 17.0),
      Call_SetShaderTexture ''lamp_bot'',
      Call_SetShaderMaterial ''metal'',
      Call_DrawMesh CylinderMesh,
      Call_SetTransformations (3.0, 1.0, 4.0) 90.0 90.0 0.0 (17.6, 12.0, - 18.0),
      Call_SetShaderTexture ''books'',
      Call_SetShaderMaterial ''fabric'',
      Call_DrawMesh BoxMesh,
      Call_SetTransformations (3.0, 1.0, 5.0) 90.0 90.0 0.0 (16.3, 12.5, - 18.0),
      Call_SetShaderTexture ''book2'',
      Call_SetShaderMaterial ''fabric'',
      Call_DrawMesh BoxMesh,
      Call_SetTransformations (3.0, 1.0, 4.0) 90.0 90.0 0.0 (15.0, 12.0, - 18.0),
      Call_SetShaderTexture ''books'',
      Call_SetShaderMaterial ''fabric'',
      Call_DrawMesh BoxMesh,
      Call_SetTransformations (3.0, 1.0, 4.0) 90.0 90.0 0.0 (4.2, 17.0, - 18.0),
      Call_SetShaderTexture ''books'',
      Call_SetShaderMaterial ''fabric'',
      Call_DrawMesh BoxMesh,
      Call_SetTransformations (3.0, 1.0, 5.0) 90.0 90.0 0.0 (5.4, 17.4, - 18.0),
      Call_SetShaderTexture ''book2'',
      Call_SetShaderMaterial ''fabric'',
      Call_DrawMesh BoxMesh,
      Call_SetTransformations (2.9, 1.0, 3.8) 90.0 90.0 20.0 (7.0, 17.1, - 18.0),
      Call_SetShaderTexture ''books'',
      Call_SetShaderMaterial ''fabric'',
      Call_DrawMesh BoxMesh,
      Call_SetTransformations (1.0, 1.0, 1.0) 0.0 0.0 0.0 (7.0, 5.0, - 17.0),
      Call_SetShaderTexture ''snowglobe_bot'',
      Call_SetShaderMaterial ''metal'',
      Call_DrawMesh TaperedCylinderMesh,
      Call_SetTransformations (0.9, 0.9, 0.9) 0.0 0.0 0.0 (7.0, 6.7, - 17.0),
      Call_SetShaderTexture ''lamp_bot'',
      Call_SetShaderMaterial ''glass'',
      Call_DrawMesh SphereMesh]"

fun exec_call ::
  "'m GLM \<Rightarrow> SceneManager \<Rightarrow> OBJECT_MATERIAL \<Rightarrow> scene_call \<Rightarrow> 'm GL \<Rightarrow> error + 'm GL" where
  "exec_call g sm uninit (Call_SetTransformations s x y z p) gl =
     Inr (SetTransformations g sm s x y z p gl)"
| "exec_call g sm uninit (Call_SetShaderColor r gr b a) gl = Inr (SetShaderColor sm r gr b a gl)"
| "exec_call g sm uninit (Call_SetShaderTexture t) gl = SetShaderTexture sm t gl"
| "exec_call g sm uninit (Call_SetShaderMaterial t) gl = SetShaderMaterial sm uninit t gl"
| "exec_call g sm uninit (Call_DrawMesh m) gl = Inr (DrawShapeMesh m gl)"

fun exec_calls ::
  "'m GLM \<Rightarrow> SceneManager \<Rightarrow> OBJECT_MATERIAL \<Rightarrow> scene_call list \<Rightarrow> 'm GL \<Rightarrow> error + 'm GL" where
  "exec_calls g sm uninit [] gl = Inr gl"
| "exec_calls g sm uninit (c # cs) gl =
     (case exec_call g sm uninit c gl of
        Inl e \<Rightarrow> Inl e
      | Inr gl' \<Rightarrow> exec_calls g sm uninit cs gl')"

definition RenderScene ::
  "'m GLM \<Rightarrow> SceneManager \<Rightarrow> OBJECT_MATERIAL \<Rightarrow> 'm GL \<Rightarrow> error + 'm GL" where
  "RenderScene g sm uninit gl = exec_calls g sm uninit RenderScene_calls gl"

section \<open>Reference definitions and concrete states\<close>

text \<open>
  The transform composer as the specification words it (4.4): the matrix is
  \<open>T * Rz * Ry * Rx * S\<close>, translation outermost, scale innermost, each angle given in
  degrees and converted to radians before its rotation is built.
\<close>

definition Compose_spec :: "'m GLM \<Rightarrow> vec3 \<Rightarrow> float \<times> float \<times> float \<Rightarrow> vec3 \<Rightarrow> 'm" where
  "Compose_spec g scale rotation translation =
     (case rotation of
        (rx, ry, rz) \<Rightarrow>
          (let T = glm_translate g translation;
               Rz = glm_rotate g (glm_radians g rz) (0, 0, 1);
               Ry = glm_rotate g (glm_radians g ry) (0, 1, 0);
               Rx = glm_rotate g (glm_radians g rx) (1, 0, 0);
               S = glm_scale g scale
           in mat4_mul g (mat4_mul g (mat4_mul g (mat4_mul g T Rz) Ry) Rx) S))"

text \<open>
  One instance of GLM, for concrete runs: a matrix is the expression that built it, and
  \<open>glm::radians\<close> is the exact conversion.
\<close>

datatype mat4_expr =
    Scale vec3
  | Rotate float vec3
  | Translate vec3
  | Mul mat4_expr mat4_expr

definition glm_symbolic :: "mat4_expr GLM" where
  "glm_symbolic =
     \<lparr>glm_scale = Scale, glm_rotate = Rotate, glm_translate = Translate,
      glm_radians = (\<lambda>d. d * pi / 180), mat4_mul = Mul\<rparr>"

text \<open>A scene manager with a shader attached, no texture loaded and no material defined;
  the same one with no shader; a context in which nothing has been called.\<close>

definition fresh_scene :: SceneManager where
  "fresh_scene =
     \<lparr>m_pShaderManager = Some 0, m_loadedTextures = 0,
      m_textureIDs = replicate MAX_TEXTURES \<lparr>ID = 0, tag = []\<rparr>,
      m_objectMaterials = []\<rparr>"

definition detached_scene :: SceneManager where
  "detached_scene = fresh_scene\<lparr>m_pShaderManager := None\<rparr>"

definition fresh_gl :: "'m GL" where
  "fresh_gl = \<lparr>calls = [], gen_names = (\<lambda>k. of_nat (k + 1)), gen_count = 0\<rparr>"

definition gray_image :: "string \<Rightarrow> stb_image option" where
  "gray_image filename = Some \<lparr>width = 64, height = 64, colorChannels = 1\<rparr>"

text \<open>A sequence of calls of \<open>CreateGLTexture\<close> that all return \<open>true\<close>: the scene
  manager and the context after the last one; \<open>None\<close> when a call fails or leaves the array.\<close>

fun successful_loads ::
  "(string \<Rightarrow> stb_image option) \<Rightarrow> (string \<times> string) list \<Rightarrow> SceneManager \<Rightarrow> 'm GL
     \<Rightarrow> (SceneManager \<times> 'm GL) option" where
  "successful_loads stbi_load [] sm gl = Some (sm, gl)"
| "successful_loads stbi_load ((filename, t) # rest) sm gl =
     (case CreateGLTexture stbi_load filename t sm gl of
        Inr (True, sm', gl') \<Rightarrow> successful_loads stbi_load rest sm' gl'
      | _ \<Rightarrow> None)"

text \<open>Decoders for concrete runs: every file is a 64 x 64 RGB image (above: a one-channel
  image).\<close>

definition rgb_image :: "string \<Rightarrow> stb_image option" where
  "rgb_image filename = Some \<lparr>width = 64, height = 64, colorChannels = 3\<rparr>"

text \<open>The first three loads of \<open>LoadSceneTextures\<close>.\<close>

definition three_textures :: "(string \<times> string) list" where
  "three_textures =
     [(''textures/leaf.jpg'', ''leaf''), (''textures/vase.jpg'', ''vase''),
      (''textures/floor.jpg'', ''floor'')]"

text \<open>A driver whose \<open>glGenTextures\<close> hands out the name \<open>0xFFFFFFFF\<close>.\<close>

definition all_ones_driver :: "mat4_expr GL" where
  "all_ones_driver = fresh_gl\<lparr>gen_names := (\<lambda>k. 0xFFFFFFFF)\<rparr>"

text \<open>A scene manager with two textures loaded, under the handles 1 and 2.\<close>

definition two_textures_scene :: SceneManager where
  "two_textures_scene =
     fresh_scene\<lparr>m_loadedTextures := 2,
       m_textureIDs := \<lparr>ID = 1, tag = ''leaf''\<rparr> # \<lparr>ID = 2, tag = ''vase''\<rparr>
         # replicate 14 \<lparr>ID = 0, tag = []\<rparr>\<rparr>"

text \<open>
  Between two draws, not both \<open>SetShaderColor\<close> and \<open>SetShaderTexture\<close> are called:
  \<open>c\<close> and \<open>t\<close> say whether each has been called since the last draw.
\<close>

fun selection_exclusive :: "bool \<Rightarrow> bool \<Rightarrow> scene_call list \<Rightarrow> bool" where
  "selection_exclusive c t [] = True"
| "selection_exclusive c t (Call_SetShaderColor r g b a # cs) = selection_exclusive True t cs"
| "selection_exclusive c t (Call_SetShaderTexture n # cs) = selection_exclusive c True cs"
| "selection_exclusive c t (Call_DrawMesh m # cs) =
     (\<not> (c \<and> t) \<and> selection_exclusive False False cs)"
| "selection_exclusive c t (_ # cs) = selection_exclusive c t cs"

text \<open>
  Every draw is preceded, since the draw before it, by a call of \<open>SetTransformations\<close>,
  one of \<open>SetShaderColor\<close> or \<open>SetShaderTexture\<close>, and one of \<open>SetShaderMaterial\<close>:
  the three flags say which have been called since the last draw.
\<close>

fun state_set_per_draw :: "bool \<Rightarrow> bool \<Rightarrow> bool \<Rightarrow> scene_call list \<Rightarrow> bool" where
  "state_set_per_draw tr se ma [] = True"
| "state_set_per_draw tr se ma (Call_SetTransformations s x y z p # cs) =
     state_set_per_draw True se ma cs"
| "state_set_per_draw tr se ma (Call_SetShaderColor r g b a # cs) =
     state_set_per_draw tr True ma cs"
| "state_set_per_draw tr se ma (Call_SetShaderTexture t # cs) =
     state_set_per_draw tr True ma cs"
| "state_set_per_draw tr se ma (Call_SetShaderMaterial t # cs) =
     state_set_per_draw tr se True cs"
| "state_set_per_draw tr se ma (Call_DrawMesh m # cs) =
     (tr \<and> se \<and> ma \<and> state_set_per_draw False False False cs)"

text \<open>
  The names of the uniforms a draw needs written: the model matrix, the texture flag with
  the sampler or the colour, and the three material uniforms.
\<close>

definition state_complete :: "string list \<Rightarrow> bool" where
  "state_complete written =
     (''model'' \<in> set written
      \<and> ''bUseTexture'' \<in> set written
      \<and> (''objectTexture'' \<in> set written \<or> ''objectColor'' \<in> set written)
      \<and> ''material.diffuseColor'' \<in> set written
      \<and> ''material.specularColor'' \<in> set written
      \<and> ''material.shininess'' \<in> set written)"

text \<open>
  The lookups as the specification words them (4.1, 4.2): the slot of a tag is the index
  of the first registered texture with that tag, -1 when there is none; the material
  of a tag is the first registered material with that tag.
\<close>

fun first_match :: "string \<Rightarrow> TEXTURE_INFO list \<Rightarrow> int \<Rightarrow> int" where
  "first_match t [] k = - 1"
| "first_match t (x # xs) k = (if tag x = t then k else first_match t xs (k + 1))"

definition texture_slot :: "SceneManager \<Rightarrow> string \<Rightarrow> int" where
  "texture_slot sm t = first_match t (take (nat (m_loadedTextures sm)) (m_textureIDs sm)) 0"

definition registered_material :: "SceneManager \<Rightarrow> string \<Rightarrow> OBJECT_MATERIAL option" where
  "registered_material sm t = find (\<lambda>m. mtag m = t) (m_objectMaterials sm)"

text \<open>
  The state one call of the dispatcher sets for the object being prepared, as the
  specification words it (4.4, 4.5): the composed matrix; the flat colour with the
  texture flag off; the texture flag on with the slot of the tag; the three values of
  the material of the tag, and nothing when the tag has no material.
\<close>

fun uniforms_set ::
  "'m GLM \<Rightarrow> SceneManager \<Rightarrow> scene_call \<Rightarrow> (string \<times> 'm uniform_value) list" where
  "uniforms_set g sm (Call_SetTransformations s x y z p) =
     [(''model'', Mat4Value (Compose_spec g s (x, y, z) p))]"
| "uniforms_set g sm (Call_SetShaderColor r gr b a) =
     [(''bUseTexture'', IntValue 0), (''objectColor'', Vec4Value (r, gr, b, a))]"
| "uniforms_set g sm (Call_SetShaderTexture t) =
     [(''bUseTexture'', IntValue 1), (''objectTexture'', Sampler2DValue (texture_slot sm t))]"
| "uniforms_set g sm (Call_SetShaderMaterial t) =
     (case registered_material sm t of
        None \<Rightarrow> []
      | Some m \<Rightarrow>
          [(''material.diffuseColor'', Vec3Value (diffuseColor m)),
           (''material.specularColor'', Vec3Value (specularColor m)),
           (''material.shininess'', FloatValue (shininess m))])"
| "uniforms_set g sm (Call_DrawMesh m) = []"

text \<open>The material tags a list of calls asks for.\<close>

fun material_tags :: "scene_call list \<Rightarrow> string list" where
  "material_tags [] = []"
| "material_tags (Call_SetShaderMaterial t # cs) = t # material_tags cs"
| "material_tags (c # cs) = material_tags cs"

text \<open>
  For each object a list of calls draws, in order: its mesh and the state its own calls
  set, that is the calls between the draw before it and its own draw; \<open>w\<close> is the
  state set so far for the object being prepared.
\<close>

fun object_states ::
  "'m GLM \<Rightarrow> SceneManager \<Rightarrow> (string \<times> 'm uniform_value) list \<Rightarrow> scene_call list
     \<Rightarrow> (mesh \<times> (string \<times> 'm uniform_value) list) list" where
  "object_states g sm w [] = []"
| "object_states g sm w (Call_DrawMesh m # cs) = (m, w) # object_states g sm [] cs"
| "object_states g sm w (c # cs) = object_states g sm (w @ uniforms_set g sm c) cs"

text \<open>
  For each draw of a command stream, in order: its mesh and the uniform writes the stream
  holds between the draw before it and this draw; \<open>w\<close> is the writes since the last
  draw.
\<close>

fun fresh_writes_at_draws ::
  "(string \<times> 'm uniform_value) list \<Rightarrow> 'm gl_call list
     \<Rightarrow> (mesh \<times> (string \<times> 'm uniform_value) list) list" where
  "fresh_writes_at_draws w [] = []"
| "fresh_writes_at_draws w (SetUniform n v # cs) = fresh_writes_at_draws (w @ [(n, v)]) cs"
| "fresh_writes_at_draws w (DrawMesh m # cs) = (m, w) # fresh_writes_at_draws [] cs"
| "fresh_writes_at_draws w (c # cs) = fresh_writes_at_draws w cs"

definition writes_of :: "(string \<times> 'm uniform_value) list \<Rightarrow> 'm gl_call list" where
  "writes_of ws = map (\<lambda>(n, v). SetUniform n v) ws"

text \<open>A value for the uninitialised local of \<open>SetShaderMaterial\<close>.\<close>

definition blank_material :: OBJECT_MATERIAL where
  "blank_material = \<lparr>diffuseColor = (0, 0, 0), specularColor = (0, 0, 0), shininess = 0, mtag = []\<rparr>"

text \<open>
  The scene manager after the fourteen loads of \<open>LoadSceneTextures\<close> (every file an RGB
  image, the driver handing out the names 1, 2, ...), and the same after
  \<open>DefineObjectMaterials\<close>.
\<close>

definition loaded_scene :: SceneManager where
  "loaded_scene =
     fresh_scene\<lparr>m_loadedTextures := 14,
       m_textureIDs :=
         [\<lparr>ID = 1, tag = ''leaf''\<rparr>, \<lparr>ID = 2, tag = ''vase''\<rparr>, \<lparr>ID = 3, tag = ''floor''\<rparr>,
          \<lparr>ID = 4, tag = ''wall''\<rparr>, \<lparr>ID = 5, tag = ''ottoman''\<rparr>, \<lparr>ID = 6, tag = ''pillow''\<rparr>,
          \<lparr>ID = 7, tag = ''bookshelf''\<rparr>, \<lparr>ID = 8, tag = ''picture''\<rparr>, \<lparr>ID = 9, tag = ''rug''\<rparr>,
          \<lparr>ID = 10, tag = ''lamp_bot''\<rparr>, \<lparr>ID = 11, tag = ''lamp_top''\<rparr>,
          \<lparr>ID = 12, tag = ''books''\<rparr>, \<lparr>ID = 13, tag = ''book2''\<rparr>,
          \<lparr>ID = 14, tag = ''snowglobe_bot''\<rparr>, \<lparr>ID = 0, tag = []\<rparr>, \<lparr>ID = 0, tag = []\<rparr>]\<rparr>"

definition prepared_scene :: SceneManager where
  "prepared_scene = DefineObjectMaterials loaded_scene"

section \<open>Properties\<close>

subsection \<open>Material lookup\<close>

text \<open>
  C3. \<open>FindMaterial\<close> should report not-found for a tag that no registered material has,
  in an empty and in a non-empty registry alike. The code does not: with the eight
  materials of \<open>DefineObjectMaterials\<close> registered, looking up the absent tag
  \<open>carpet\<close> returns \<open>true\<close> and leaves the out-parameter as it was.
\<close>

theorem FindMaterial_absent_tag_reported_found:
  "map mtag (m_objectMaterials (DefineObjectMaterials fresh_scene)) =
     [''metal'', ''wood'', ''glass'', ''vase'', ''wall'', ''leaf'', ''paper'', ''fabric'']
   \<and> FindMaterial (DefineObjectMaterials fresh_scene) ''carpet'' u = (True, u)"
  by (simp add: FindMaterial_def DefineObjectMaterials_def fresh_scene_def
      FindMaterial_loop.simps)

text \<open>The last write wins, also across a suffix of the stream.\<close>

lemma uniform_of_append:
  "uniform_of (xs @ ys) name =
     (case uniform_of ys name of Some w \<Rightarrow> Some w | None \<Rightarrow> uniform_of xs name)"
proof (induction xs)
  case Nil
  then show ?case by (simp split: option.splits)
next
  case (Cons c xs)
  then show ?case by (cases c) (auto split: option.splits)
qed

text \<open>
  C2. \<open>SetShaderMaterial\<close> should write no uniform for a tag that matches no registered
  material. The code does write: with the eight materials of \<open>DefineObjectMaterials\<close>
  registered, the absent tag \<open>carpet\<close> makes it push the three material uniforms, with
  the contents of its uninitialised local; whatever the shininess uniform held before,
  it then holds that of the local.
\<close>

theorem SetShaderMaterial_absent_tag_writes:
  "SetShaderMaterial (DefineObjectMaterials fresh_scene) u ''carpet'' gl =
     Inr (gl\<lparr>calls := calls gl @
       [SetUniform ''material.diffuseColor'' (Vec3Value (diffuseColor u)),
        SetUniform ''material.specularColor'' (Vec3Value (specularColor u)),
        SetUniform ''material.shininess'' (FloatValue (shininess u))]\<rparr>)
   \<and> uniform_of (calls gl @
       [SetUniform ''material.diffuseColor'' (Vec3Value (diffuseColor u)),
        SetUniform ''material.specularColor'' (Vec3Value (specularColor u)),
        SetUniform ''material.shininess'' (FloatValue (shininess u))]) ''material.shininess''
       = Some (FloatValue (shininess u))"
  by (simp add: SetShaderMaterial_def FindMaterial_def DefineObjectMaterials_def
      fresh_scene_def FindMaterial_loop.simps setValue_def uniform_of_append)

subsection \<open>Texture loading\<close>

text \<open>
  C6. When the image decodes but has neither 3 nor 4 channels, \<open>CreateGLTexture\<close>
  returns \<open>false\<close> and the scene manager it returns is the one it was given: the count
  of loaded textures and every entry of the registry are unchanged.
\<close>

theorem CreateGLTexture_rejects_channels:
  "stbi_load filename = Some img \<Longrightarrow> colorChannels img \<noteq> 3 \<Longrightarrow> colorChannels img \<noteq> 4 \<Longrightarrow>
   \<exists>gl'. CreateGLTexture stbi_load filename t sm gl = Inr (False, sm, gl')"
  by (simp add: CreateGLTexture_def Let_def split: prod.splits)

theorem CreateGLTexture_rejects_channels_witness:
  "gray_image ''textures/gray.png'' = Some \<lparr>width = 64, height = 64, colorChannels = 1\<rparr>
   \<and> colorChannels \<lparr>width = 64, height = 64, colorChannels = 1\<rparr> \<noteq> 3
   \<and> colorChannels \<lparr>width = 64, height = 64, colorChannels = 1\<rparr> \<noteq> 4
   \<and> (\<exists>gl'. CreateGLTexture gray_image ''textures/gray.png'' ''gray'' fresh_scene
               (fresh_gl :: mat4_expr GL) = Inr (False, fresh_scene, gl'))"
proof -
  have h: "gray_image ''textures/gray.png'' = Some \<lparr>width = 64, height = 64, colorChannels = 1\<rparr>"
    by (simp add: gray_image_def)
  show ?thesis
    using h CreateGLTexture_rejects_channels
      [of gray_image "''textures/gray.png''" "\<lparr>width = 64, height = 64, colorChannels = 1\<rparr>"
        "''gray''" fresh_scene fresh_gl]
    by simp
qed

subsection \<open>The transform composer\<close>

text \<open>
  C8. \<open>SetTransformations\<close> computes the model matrix as the specification composes it
  (translation, then the Z, Y and X rotations of the angles converted to radians, then
  scale) and its whole effect is one write of that matrix to the uniform \<open>model\<close> of
  the attached shader.
\<close>

theorem SetTransformations_composes:
  "SetTransformations g sm scaleXYZ x y z positionXYZ gl =
     (case m_pShaderManager sm of
        None \<Rightarrow> gl
      | Some p \<Rightarrow> gl\<lparr>calls := calls gl @
          [SetUniform ''model'' (Mat4Value (Compose_spec g scaleXYZ (x, y, z) positionXYZ))]\<rparr>)"
  by (simp add: SetTransformations_def Compose_spec_def setValue_def Let_def
      split: option.splits)

subsection \<open>No shader attached\<close>

text \<open>
  C10. With \<open>m_pShaderManager\<close> \<open>NULL\<close>, each of \<open>SetTransformations\<close>,
  \<open>SetShaderColor\<close>, \<open>SetShaderTexture\<close> and \<open>SetTextureUVScale\<close> returns normally
  and leaves the command stream as it was, whatever its arguments.
\<close>

theorem dispatcher_null_shader_noop:
  "m_pShaderManager sm = None \<Longrightarrow>
     SetTransformations g sm scaleXYZ x y z positionXYZ gl = gl
   \<and> SetShaderColor sm r gr b a gl = gl
   \<and> SetShaderTexture sm textureTag gl = Inr gl
   \<and> SetTextureUVScale sm u v gl = gl"
  by (simp add: SetTransformations_def SetShaderColor_def SetShaderTexture_def
      SetTextureUVScale_def Let_def)

theorem dispatcher_null_shader_noop_witness:
  "m_pShaderManager detached_scene = None
   \<and> SetTransformations glm_symbolic detached_scene (2, 3, 4) 90 0 45 (5, 6, 7) fresh_gl = fresh_gl
   \<and> SetShaderColor detached_scene 0.3 0.3 0.3 1 (fresh_gl :: mat4_expr GL) = fresh_gl
   \<and> SetShaderTexture detached_scene ''floor'' (fresh_gl :: mat4_expr GL) = Inr fresh_gl
   \<and> SetTextureUVScale detached_scene 2 2 (fresh_gl :: mat4_expr GL) = fresh_gl"
proof -
  have h: "m_pShaderManager detached_scene = None"
    by (simp add: detached_scene_def)
  show ?thesis
    using h dispatcher_null_shader_noop [OF h, of glm_symbolic "(2, 3, 4)" 90 0 45 "(5, 6, 7)"
        fresh_gl "0.3" "0.3" "0.3" 1 "''floor''" 2 2]
    by simp
qed
subsection \<open>The lookup loops\<close>

lemma FindTextureSlot_loop_found [simp]:
  "FindTextureSlot_loop sm t ts index True = Inr ts"
  by (subst FindTextureSlot_loop.simps) simp

lemma FindTextureID_loop_found [simp]:
  "FindTextureID_loop sm t tid index True = Inr tid"
  by (subst FindTextureID_loop.simps) simp

text \<open>
  Both scans visit the same entries in the same order: started with a negative slot, the
  handle scan returns its initial value where the slot scan returns its own, and the
  handle of the slot found otherwise.
\<close>

lemma FindTextureID_loop_by_slot:
  "ts < 0 \<Longrightarrow> 0 \<le> index \<Longrightarrow>
   FindTextureID_loop sm t tid index bFound =
     (case FindTextureSlot_loop sm t ts index bFound of
        Inl e \<Rightarrow> Inl e
      | Inr s \<Rightarrow> if s = ts then Inr tid else Inr (sint (ID (m_textureIDs sm ! nat s))))"
proof (induction sm t ts index bFound rule: FindTextureSlot_loop.induct)
  case (1 sm t textureSlot index bFound)
  show ?case
  proof (cases "index < m_loadedTextures sm \<and> bFound = False")
    case False
    then show ?thesis
      by (subst FindTextureID_loop.simps, subst FindTextureSlot_loop.simps) auto
  next
    case run: True
    show ?thesis
    proof (cases "0 \<le> index \<and> index < int (length (m_textureIDs sm))")
      case False
      with run show ?thesis
        by (subst FindTextureID_loop.simps, subst FindTextureSlot_loop.simps) auto
    next
      case inb: True
      show ?thesis
      proof (cases "tag (m_textureIDs sm ! nat index) = t")
        case True
        with run inb "1.prems" show ?thesis
          by (subst FindTextureID_loop.simps, subst FindTextureSlot_loop.simps) auto
      next
        case False
        with run inb "1.prems" "1.IH"(2) show ?thesis
          by (subst FindTextureID_loop.simps, subst FindTextureSlot_loop.simps) auto
      qed
    qed
  qed
qed

lemma FindTextureSlot_loop_range:
  "FindTextureSlot_loop sm t ts index bFound = Inr s \<Longrightarrow> 0 \<le> index \<Longrightarrow>
   s = ts \<or> (index \<le> s \<and> s < m_loadedTextures sm \<and> s < int (length (m_textureIDs sm))
             \<and> tag (m_textureIDs sm ! nat s) = t)"
proof (induction sm t ts index bFound rule: FindTextureSlot_loop.induct)
  case (1 sm t textureSlot index bFound)
  from "1.prems"(1) show ?case
    apply (subst (asm) FindTextureSlot_loop.simps)
    using "1.IH"(2) "1.prems"(2)
    by (auto split: if_splits)
qed

lemma FindTextureSlot_loop_first:
  "bFound = False \<Longrightarrow> 0 \<le> index \<Longrightarrow> index \<le> k \<Longrightarrow> k < m_loadedTextures sm \<Longrightarrow>
   m_loadedTextures sm \<le> int (length (m_textureIDs sm)) \<Longrightarrow>
   tag (m_textureIDs sm ! nat k) = t \<Longrightarrow>
   (\<forall>i. index \<le> i \<and> i < k \<longrightarrow> tag (m_textureIDs sm ! nat i) \<noteq> t) \<Longrightarrow>
   FindTextureSlot_loop sm t ts index bFound = Inr k"
proof (induction sm t ts index bFound rule: FindTextureSlot_loop.induct)
  case (1 sm t textureSlot index bFound)
  show ?case
  proof (cases "index = k")
    case True
    with "1.prems" show ?thesis
      by (subst FindTextureSlot_loop.simps) simp
  next
    case False
    with "1.prems" have "tag (m_textureIDs sm ! nat index) \<noteq> t" "index + 1 \<le> k" by auto
    with "1.prems" "1.IH"(2) show ?thesis
      by (subst FindTextureSlot_loop.simps) auto
  qed
qed

lemma FindTextureSlot_loop_absent:
  "bFound = False \<Longrightarrow> 0 \<le> index \<Longrightarrow>
   m_loadedTextures sm \<le> int (length (m_textureIDs sm)) \<Longrightarrow>
   (\<forall>i. index \<le> i \<and> i < m_loadedTextures sm \<longrightarrow> tag (m_textureIDs sm ! nat i) \<noteq> t) \<Longrightarrow>
   FindTextureSlot_loop sm t ts index bFound = Inr ts"
proof (induction sm t ts index bFound rule: FindTextureSlot_loop.induct)
  case (1 sm t textureSlot index bFound)
  show ?case
  proof (cases "index < m_loadedTextures sm")
    case False
    then show ?thesis by (subst FindTextureSlot_loop.simps) simp
  next
    case True
    with "1.prems" have "tag (m_textureIDs sm ! nat index) \<noteq> t" by auto
    with True "1.prems" "1.IH"(2) show ?thesis
      by (subst FindTextureSlot_loop.simps) auto
  qed
qed

subsection \<open>Slots in load order\<close>

lemma CreateGLTexture_success:
  assumes "CreateGLTexture stbi_load filename t sm gl = Inr (True, sm', gl')"
  shows "0 \<le> m_loadedTextures sm" "m_loadedTextures sm < int (length (m_textureIDs sm))"
    "m_loadedTextures sm' = m_loadedTextures sm + 1"
    "length (m_textureIDs sm') = length (m_textureIDs sm)"
    "tag (m_textureIDs sm' ! nat (m_loadedTextures sm)) = t"
    "\<And>j. j \<noteq> nat (m_loadedTextures sm) \<Longrightarrow> m_textureIDs sm' ! j = m_textureIDs sm ! j"
  using assms
  by (auto simp: CreateGLTexture_def Let_def split: option.splits prod.splits if_splits)

lemma successful_loads_registry:
  "successful_loads stbi_load reqs sm gl = Some (sm', gl') \<Longrightarrow>
   0 \<le> m_loadedTextures sm \<Longrightarrow> m_loadedTextures sm \<le> int (length (m_textureIDs sm)) \<Longrightarrow>
     m_loadedTextures sm' = m_loadedTextures sm + int (length reqs)
   \<and> m_loadedTextures sm' \<le> int (length (m_textureIDs sm'))
   \<and> (\<forall>n < length reqs. tag (m_textureIDs sm' ! (nat (m_loadedTextures sm) + n)) = snd (reqs ! n))
   \<and> (\<forall>j < nat (m_loadedTextures sm). m_textureIDs sm' ! j = m_textureIDs sm ! j)"
proof (induction reqs arbitrary: sm gl)
  case Nil
  then show ?case by simp
next
  case (Cons r rest)
  obtain filename t where r: "r = (filename, t)" by (cases r)
  from Cons.prems(1) r obtain sm1 gl1 where
    step: "CreateGLTexture stbi_load filename t sm gl = Inr (True, sm1, gl1)" and
    rest: "successful_loads stbi_load rest sm1 gl1 = Some (sm', gl')"
    by (auto split: sum.splits prod.splits bool.splits)
  note s = CreateGLTexture_success [OF step]
  have ih: "m_loadedTextures sm' = m_loadedTextures sm1 + int (length rest)
     \<and> m_loadedTextures sm' \<le> int (length (m_textureIDs sm'))
     \<and> (\<forall>n < length rest. tag (m_textureIDs sm' ! (nat (m_loadedTextures sm1) + n)) = snd (rest ! n))
     \<and> (\<forall>j < nat (m_loadedTextures sm1). m_textureIDs sm' ! j = m_textureIDs sm1 ! j)"
    using Cons.IH [OF rest] s(1,2,3,4) by simp
  have k1: "nat (m_loadedTextures sm1) = Suc (nat (m_loadedTextures sm))"
    using s(1,3) by simp
  have tags: "tag (m_textureIDs sm' ! (nat (m_loadedTextures sm) + n)) = snd ((r # rest) ! n)"
    if "n < length (r # rest)" for n
  proof (cases n)
    case 0
    then show ?thesis using ih k1 s(5) r by simp
  next
    case (Suc m)
    then show ?thesis using ih k1 that by simp
  qed
  have old: "m_textureIDs sm' ! j = m_textureIDs sm ! j" if "j < nat (m_loadedTextures sm)" for j
    using ih k1 that s(6) [of j] by simp
  from ih s(3) tags old show ?case by simp
qed

text \<open>
  C7. Starting with no texture loaded, after a sequence of calls of \<open>CreateGLTexture\<close>
  that all succeed, with pairwise distinct tags: the count is the number of calls, the
  \<open>n\<close>-th call (from 0) is recorded at index \<open>n\<close>, \<open>FindTextureSlot\<close> on its tag
  returns \<open>n\<close>, which is below the count, and \<open>FindTextureSlot\<close> on any other tag
  returns -1.
\<close>

theorem loads_fill_slots_in_order:
  assumes start: "m_loadedTextures sm = 0"
    and tags: "distinct (map snd reqs)"
    and run: "successful_loads stbi_load reqs sm gl = Some (sm', gl')"
  shows "m_loadedTextures sm' = int (length reqs)
    \<and> (\<forall>n < length reqs. tag (m_textureIDs sm' ! n) = snd (reqs ! n)
          \<and> FindTextureSlot sm' (snd (reqs ! n)) = Inr (int n))
    \<and> (\<forall>t. t \<notin> set (map snd reqs) \<longrightarrow> FindTextureSlot sm' t = Inr (- 1))"
proof -
  from successful_loads_registry [OF run] start
  have count: "m_loadedTextures sm' = int (length reqs)"
    and cap: "m_loadedTextures sm' \<le> int (length (m_textureIDs sm'))"
    and entry: "\<And>n. n < length reqs \<Longrightarrow> tag (m_textureIDs sm' ! n) = snd (reqs ! n)"
    by simp_all
  have slot: "FindTextureSlot sm' (snd (reqs ! n)) = Inr (int n)" if n: "n < length reqs" for n
  proof -
    have "tag (m_textureIDs sm' ! nat i) \<noteq> snd (reqs ! n)" if "0 \<le> i" "i < int n" for i
    proof -
      from that n have "nat i < length reqs" "nat i \<noteq> n" by auto
      with tags n have "snd (reqs ! nat i) \<noteq> snd (reqs ! n)"
        by (metis distinct_conv_nth length_map nth_map)
      with entry [of "nat i"] \<open>nat i < length reqs\<close> show ?thesis by simp
    qed
    with n count cap entry [OF n] show ?thesis
      unfolding FindTextureSlot_def
      by (intro FindTextureSlot_loop_first) auto
  qed
  have absent: "FindTextureSlot sm' t = Inr (- 1)" if "t \<notin> set (map snd reqs)" for t
  proof -
    have "tag (m_textureIDs sm' ! nat i) \<noteq> t" if "0 \<le> i" "i < m_loadedTextures sm'" for i
    proof -
      from that count have "nat i < length reqs" by auto
      with entry [of "nat i"] \<open>t \<notin> set (map snd reqs)\<close> show ?thesis
        by (metis length_map nth_map nth_mem)
    qed
    with cap show ?thesis
      unfolding FindTextureSlot_def
      by (intro FindTextureSlot_loop_absent) auto
  qed
  from count entry slot absent show ?thesis by blast
qed

theorem loads_fill_slots_in_order_witness:
  "m_loadedTextures fresh_scene = 0
   \<and> distinct (map snd three_textures)
   \<and> (case successful_loads rgb_image three_textures fresh_scene (fresh_gl :: mat4_expr GL) of
        None \<Rightarrow> False
      | Some (sm', gl') \<Rightarrow>
          m_loadedTextures sm' = 3
          \<and> FindTextureSlot sm' ''leaf'' = Inr 0
          \<and> FindTextureSlot sm' ''vase'' = Inr 1
          \<and> FindTextureSlot sm' ''floor'' = Inr 2
          \<and> FindTextureSlot sm' ''rug'' = Inr (- 1))"
proof -
  have h1: "m_loadedTextures fresh_scene = 0"
    by (simp add: fresh_scene_def)
  have h2: "distinct (map snd three_textures)"
    by (simp add: three_textures_def)
  have "\<exists>sm' gl'. successful_loads rgb_image three_textures fresh_scene (fresh_gl :: mat4_expr GL)
          = Some (sm', gl')"
    by (simp add: three_textures_def CreateGLTexture_def rgb_image_def fresh_scene_def
        fresh_gl_def glGenTextures_def glCall_def Let_def MAX_TEXTURES_def)
  then obtain sm' gl' where
    run: "successful_loads rgb_image three_textures fresh_scene (fresh_gl :: mat4_expr GL)
          = Some (sm', gl')"
    by blast
  from loads_fill_slots_in_order [OF h1 h2 run]
  have c: "m_loadedTextures sm' = int (length three_textures)"
    and s: "\<And>n. n < length three_textures \<Longrightarrow>
              FindTextureSlot sm' (snd (three_textures ! n)) = Inr (int n)"
    and a: "\<And>t. t \<notin> set (map snd three_textures) \<Longrightarrow> FindTextureSlot sm' t = Inr (- 1)"
    by blast+
  have "FindTextureSlot sm' ''leaf'' = Inr 0" using s [of 0] by (simp add: three_textures_def)
  moreover have "FindTextureSlot sm' ''vase'' = Inr 1"
    using s [of 1] by (simp add: three_textures_def)
  moreover have "FindTextureSlot sm' ''floor'' = Inr 2"
    using s [of 2] by (simp add: three_textures_def)
  moreover have "FindTextureSlot sm' ''rug'' = Inr (- 1)"
    using a [of "''rug''"] by (simp add: three_textures_def)
  moreover have "m_loadedTextures sm' = 3" using c by (simp add: three_textures_def)
  ultimately show ?thesis using h1 h2 run by simp
qed

subsection \<open>Handle lookup against slot lookup\<close>

text \<open>
  C9, as the code has it. \<open>FindTextureID\<close> fails where \<open>FindTextureSlot\<close> fails (a scan
  that leaves the array); where \<open>FindTextureSlot\<close> returns -1 it returns -1; where
  \<open>FindTextureSlot\<close> returns a slot \<open>s\<close>, that slot is in \<open>[0, m_loadedTextures)\<close>,
  holds the tag, and \<open>FindTextureID\<close> returns the handle stored there, read as an
  \<open>int\<close>. So \<open>FindTextureID\<close> returns -1 exactly when \<open>FindTextureSlot\<close> returns -1
  or the handle found is \<open>0xFFFFFFFF\<close>.
\<close>

theorem FindTextureID_follows_slot:
  "FindTextureID sm t =
     (case FindTextureSlot sm t of
        Inl e \<Rightarrow> Inl e
      | Inr s \<Rightarrow> if s = - 1 then Inr (- 1) else Inr (sint (ID (m_textureIDs sm ! nat s))))
   \<and> (case FindTextureSlot sm t of
        Inl e \<Rightarrow> True
      | Inr s \<Rightarrow> s = - 1 \<or> (0 \<le> s \<and> s < m_loadedTextures sm \<and> tag (m_textureIDs sm ! nat s) = t))
   \<and> (FindTextureID sm t = Inr (- 1)) =
       (case FindTextureSlot sm t of
          Inl e \<Rightarrow> False
        | Inr s \<Rightarrow> s = - 1 \<or> ID (m_textureIDs sm ! nat s) = 0xFFFFFFFF)"
proof -
  have eq: "FindTextureID sm t =
     (case FindTextureSlot sm t of
        Inl e \<Rightarrow> Inl e
      | Inr s \<Rightarrow> if s = - 1 then Inr (- 1) else Inr (sint (ID (m_textureIDs sm ! nat s))))"
    unfolding FindTextureID_def FindTextureSlot_def
    by (rule FindTextureID_loop_by_slot) simp_all
  have range: "(case FindTextureSlot sm t of
        Inl e \<Rightarrow> True
      | Inr s \<Rightarrow> s = - 1 \<or> (0 \<le> s \<and> s < m_loadedTextures sm \<and> tag (m_textureIDs sm ! nat s) = t))"
    using FindTextureSlot_loop_range [of sm t "- 1" 0 False]
    by (auto simp: FindTextureSlot_def split: sum.splits)
  have m1: "(sint w = - 1) = (w = 0xFFFFFFFF)" for w :: "32 word"
  proof -
    have "(sint w = - 1) = (sint w = sint (- 1 :: 32 word))" by simp
    also have "\<dots> = (w = - 1)" by (simp only: word_eq_iff_signed [symmetric])
    also have "\<dots> = (w = 0xFFFFFFFF)"
    proof -
      have h: "(- 1 :: 32 word) = 0xFFFFFFFF" by simp
      show ?thesis by (simp only: h)
    qed
    finally show ?thesis .
  qed
  show ?thesis
    using range by (auto simp: eq m1 split: sum.splits)
qed

text \<open>
  C9 as stated fails: load one texture while the driver hands out the name
  \<open>0xFFFFFFFF\<close>. \<open>FindTextureSlot\<close> on its tag returns slot 0, and \<open>FindTextureID\<close>
  returns -1.
\<close>

theorem FindTextureID_sentinel_clash:
  "(case CreateGLTexture rgb_image ''textures/leaf.jpg'' ''leaf'' fresh_scene all_ones_driver of
      Inr (True, sm, gl) \<Rightarrow>
        FindTextureSlot sm ''leaf'' = Inr 0 \<and> FindTextureID sm ''leaf'' = Inr (- 1)
    | _ \<Rightarrow> False)"
  by (simp add: CreateGLTexture_def rgb_image_def fresh_scene_def all_ones_driver_def
      fresh_gl_def glGenTextures_def glCall_def Let_def MAX_TEXTURES_def
      FindTextureSlot_def FindTextureID_def FindTextureSlot_loop.simps FindTextureID_loop.simps)

subsection \<open>Teardown\<close>

text \<open>
  C4. \<open>DestroyGLTextures\<close> should issue a delete on every stored handle. The code does
  not: with two textures loaded, in any context, it calls \<open>glGenTextures\<close> twice and no
  delete, and each slot is left holding the name just generated.
\<close>

theorem DestroyGLTextures_generates_instead_of_deleting:
  "DestroyGLTextures two_textures_scene gl =
     Inr (two_textures_scene\<lparr>m_textureIDs :=
            \<lparr>ID = gen_names gl (gen_count gl), tag = ''leaf''\<rparr>
            # \<lparr>ID = gen_names gl (gen_count gl + 1), tag = ''vase''\<rparr>
            # replicate 14 \<lparr>ID = 0, tag = []\<rparr>\<rparr>,
          gl\<lparr>calls := calls gl @
                [GenTextures (gen_names gl (gen_count gl)),
                 GenTextures (gen_names gl (gen_count gl + 1))],
             gen_count := gen_count gl + 2\<rparr>)"
  by (simp add: DestroyGLTextures_def two_textures_scene_def fresh_scene_def
      DestroyGLTextures_loop.simps glGenTextures_def Let_def)

subsection \<open>The order of calls in RenderScene\<close>

text \<open>
  C5. Between two draws, at most one of \<open>SetShaderColor\<close> and \<open>SetShaderTexture\<close> should
  be called. The code calls both for one object: calls 88 to 92 of \<open>RenderScene\<close> (the
  lamp top) are \<open>SetTransformations\<close>, \<open>SetShaderColor\<close>, \<open>SetShaderTexture\<close>,
  \<open>SetShaderMaterial\<close> and the draw. Without these five calls the rest of the
  method calls at most one of the two per draw.
\<close>

theorem RenderScene_lamp_top_color_and_texture:
  "take 5 (drop 88 RenderScene_calls) =
     [Call_SetTransformations (2.0, 3.5, 2.0) 0.0 0.0 0.0 (- 2.0, 13.0, - 17.0),
      Call_SetShaderColor 0.3 0.3 0.3 0.3,
      Call_SetShaderTexture ''lamp_top'',
      Call_SetShaderMaterial ''paper'',
      Call_DrawMesh TaperedCylinderMesh]
   \<and> \<not> selection_exclusive False False RenderScene_calls
   \<and> selection_exclusive False False (take 88 RenderScene_calls @ drop 93 RenderScene_calls)"
  by (simp add: RenderScene_calls_def)

subsection \<open>The state each draw of RenderScene consumes\<close>

text \<open>With the count within the array, the slot scan is the specification's lookup.\<close>

lemma FindTextureSlot_loop_first_match:
  "ts = - 1 \<Longrightarrow> bFound = False \<Longrightarrow> 0 \<le> index \<Longrightarrow>
   m_loadedTextures sm \<le> int (length (m_textureIDs sm)) \<Longrightarrow>
   FindTextureSlot_loop sm t ts index bFound =
     Inr (first_match t
       (drop (nat index) (take (nat (m_loadedTextures sm)) (m_textureIDs sm))) index)"
proof (induction sm t ts index bFound rule: FindTextureSlot_loop.induct)
  case (1 sm t textureSlot index bFound)
  let ?reg = "take (nat (m_loadedTextures sm)) (m_textureIDs sm)"
  show ?case
  proof (cases "index < m_loadedTextures sm")
    case False
    with "1.prems" have "drop (nat index) ?reg = []" by simp
    with False "1.prems" show ?thesis
      by (subst FindTextureSlot_loop.simps) simp
  next
    case True
    with "1.prems" have len: "nat index < length ?reg" by simp
    then have split: "drop (nat index) ?reg = ?reg ! nat index # drop (Suc (nat index)) ?reg"
      by (simp only: Cons_nth_drop_Suc)
    from True "1.prems" have entry: "?reg ! nat index = m_textureIDs sm ! nat index" by simp
    from "1.prems" have suc: "nat (index + 1) = Suc (nat index)" by simp
    show ?thesis
    proof (cases "tag (m_textureIDs sm ! nat index) = t")
      case True
      with \<open>index < m_loadedTextures sm\<close> "1.prems" split entry show ?thesis
        by (subst FindTextureSlot_loop.simps) simp
    next
      case False
      with \<open>index < m_loadedTextures sm\<close> "1.prems" "1.IH"(2) split entry suc show ?thesis
        by (subst FindTextureSlot_loop.simps) simp
    qed
  qed
qed

lemma FindTextureSlot_texture_slot:
  "m_loadedTextures sm \<le> int (length (m_textureIDs sm)) \<Longrightarrow>
   FindTextureSlot sm t = Inr (texture_slot sm t)"
  using FindTextureSlot_loop_first_match [of "- 1" False 0 sm t]
  by (simp add: FindTextureSlot_def texture_slot_def)

text \<open>For a tag that has a material, the material scan copies out the first one.\<close>

lemma FindMaterial_loop_find:
  "bFound = False \<Longrightarrow> 0 \<le> index \<Longrightarrow>
   find (\<lambda>m. mtag m = t) (drop (nat index) ms) = Some r \<Longrightarrow>
   \<exists>k. FindMaterial_loop ms t index bFound material =
     (k, True, material\<lparr>diffuseColor := diffuseColor r, specularColor := specularColor r,
                        shininess := shininess r\<rparr>)"
proof (induction ms t index bFound material rule: FindMaterial_loop.induct)
  case (1 ms t index bFound material)
  have len: "nat index < length ms"
  proof (rule ccontr)
    assume "\<not> nat index < length ms"
    then have "drop (nat index) ms = []" by simp
    with "1.prems"(3) show False by simp
  qed
  then have split: "drop (nat index) ms = ms ! nat index # drop (Suc (nat index)) ms"
    by (simp only: Cons_nth_drop_Suc)
  from "1.prems" have suc: "nat (index + 1) = Suc (nat index)" by simp
  from len "1.prems" have run: "0 \<le> index \<and> index < int (length ms)" by simp
  show ?case
  proof (cases "mtag (ms ! nat index) = t")
    case True
    with "1.prems"(3) split have r: "r = ms ! nat index" by simp
    have stop: "FindMaterial_loop ms t index True m' = (index, True, m')" for m'
      by (subst FindMaterial_loop.simps) simp
    from True run "1.prems"(1) r stop show ?thesis
      by (subst FindMaterial_loop.simps) simp
  next
    case False
    with "1.prems"(3) split suc
    have "find (\<lambda>m. mtag m = t) (drop (nat (index + 1)) ms) = Some r" by simp
    with "1.IH"(2) [OF _ False] run "1.prems"(1,2)
    obtain k where "FindMaterial_loop ms t (index + 1) bFound material =
      (k, True, material\<lparr>diffuseColor := diffuseColor r, specularColor := specularColor r,
                         shininess := shininess r\<rparr>)"
      by auto
    with False run "1.prems"(1) show ?thesis
      by (subst FindMaterial_loop.simps) simp
  qed
qed

lemma SetShaderMaterial_registered:
  assumes "m_pShaderManager sm = Some p" and "registered_material sm t = Some r"
  shows "SetShaderMaterial sm uninit t gl =
     Inr (gl\<lparr>calls := calls gl @
       [SetUniform ''material.diffuseColor'' (Vec3Value (diffuseColor r)),
        SetUniform ''material.specularColor'' (Vec3Value (specularColor r)),
        SetUniform ''material.shininess'' (FloatValue (shininess r))]\<rparr>)"
proof -
  from assms(2) have ne: "m_objectMaterials sm \<noteq> []"
    by (auto simp: registered_material_def)
  from FindMaterial_loop_find [of False 0 t "m_objectMaterials sm" r uninit] assms(2)
  obtain k where "FindMaterial_loop (m_objectMaterials sm) t 0 False uninit =
      (k, True, uninit\<lparr>diffuseColor := diffuseColor r, specularColor := specularColor r,
                       shininess := shininess r\<rparr>)"
    by (auto simp: registered_material_def)
  with ne assms(1) show ?thesis
    by (simp add: SetShaderMaterial_def FindMaterial_def setValue_def)
qed

lemma fresh_writes_at_draws_writes:
  "fresh_writes_at_draws w (writes_of ws @ cs) = fresh_writes_at_draws (w @ ws) cs"
  by (induction ws arbitrary: w) (auto simp: writes_of_def)

text \<open>
  With a shader attached and the count within the array, a dispatcher call whose
  material tag is registered, or made while no material is registered at all, writes
  exactly the state the specification gives it.
\<close>

lemma exec_call_writes:
  assumes "m_pShaderManager sm = Some p"
    and "m_loadedTextures sm \<le> int (length (m_textureIDs sm))"
    and "list_all (\<lambda>t. registered_material sm t \<noteq> None \<or> m_objectMaterials sm = [])
           (material_tags [c])"
    and "\<forall>m. c \<noteq> Call_DrawMesh m"
  shows "exec_call g sm uninit c gl =
    Inr (gl\<lparr>calls := calls gl @ writes_of (uniforms_set g sm c)\<rparr>)"
proof (cases c)
  case (Call_SetTransformations s x y z pos)
  with assms(1) show ?thesis
    by (simp add: SetTransformations_def Compose_spec_def setValue_def Let_def writes_of_def)
next
  case (Call_SetShaderColor r gr b a)
  with assms(1) show ?thesis
    by (simp add: SetShaderColor_def setValue_def Let_def writes_of_def)
next
  case (Call_SetShaderTexture t)
  with assms(1) FindTextureSlot_texture_slot [OF assms(2), of t] show ?thesis
    by (simp add: SetShaderTexture_def setValue_def Let_def writes_of_def)
next
  case (Call_SetShaderMaterial t)
  show ?thesis
  proof (cases "m_objectMaterials sm = []")
    case True
    with Call_SetShaderMaterial show ?thesis
      by (simp add: SetShaderMaterial_def registered_material_def writes_of_def)
  next
    case False
    with assms(3) Call_SetShaderMaterial obtain r where r: "registered_material sm t = Some r"
      by auto
    with Call_SetShaderMaterial SetShaderMaterial_registered [OF assms(1) r, of uninit gl]
    show ?thesis by (simp add: writes_of_def)
  qed
next
  case (Call_DrawMesh m)
  with assms(4) show ?thesis by simp
qed

lemma material_tags_Cons:
  "list_all P (material_tags (c # cs)) =
     (list_all P (material_tags [c]) \<and> list_all P (material_tags cs))"
  by (cases c) simp_all

lemma exec_calls_object_states:
  assumes shader: "m_pShaderManager sm = Some p"
    and cap: "m_loadedTextures sm \<le> int (length (m_textureIDs sm))"
  shows "list_all (\<lambda>t. registered_material sm t \<noteq> None \<or> m_objectMaterials sm = [])
           (material_tags cs) \<Longrightarrow>
    \<exists>new. exec_calls g sm uninit cs gl = Inr (gl\<lparr>calls := calls gl @ new\<rparr>)
      \<and> fresh_writes_at_draws w new = object_states g sm w cs"
proof (induction cs arbitrary: w gl)
  case Nil
  have "exec_calls g sm uninit [] gl = Inr (gl\<lparr>calls := calls gl @ []\<rparr>)" by simp
  then show ?case by (intro exI [of _ "[]"]) simp
next
  case (Cons c cs)
  from Cons.prems
  have regc: "list_all (\<lambda>t. registered_material sm t \<noteq> None \<or> m_objectMaterials sm = [])
      (material_tags [c])"
    and regcs: "list_all (\<lambda>t. registered_material sm t \<noteq> None \<or> m_objectMaterials sm = [])
      (material_tags cs)"
    by (simp_all add: material_tags_Cons [of _ c cs])
  show ?case
  proof (cases "\<exists>m. c = Call_DrawMesh m")
    case True
    then obtain m where c: "c = Call_DrawMesh m" by blast
    from Cons.IH [OF regcs, of "gl\<lparr>calls := calls gl @ [DrawMesh m]\<rparr>" "[]"]
    obtain new where
      "exec_calls g sm uninit cs (gl\<lparr>calls := calls gl @ [DrawMesh m]\<rparr>)
         = Inr (gl\<lparr>calls := calls gl @ (DrawMesh m # new)\<rparr>)"
      "fresh_writes_at_draws [] new = object_states g sm [] cs"
      by auto
    with c show ?thesis
      by (intro exI [of _ "DrawMesh m # new"]) (simp add: DrawShapeMesh_def)
  next
    case False
    then have nd: "\<forall>m. c \<noteq> Call_DrawMesh m" by blast
    let ?ws = "uniforms_set g sm c"
    note step = exec_call_writes [OF shader cap regc nd, of g uninit gl]
    from Cons.IH [OF regcs, of "gl\<lparr>calls := calls gl @ writes_of ?ws\<rparr>" "w @ ?ws"]
    obtain new where
      run: "exec_calls g sm uninit cs (gl\<lparr>calls := calls gl @ writes_of ?ws\<rparr>)
         = Inr (gl\<lparr>calls := calls gl @ (writes_of ?ws @ new)\<rparr>)"
      and fw: "fresh_writes_at_draws (w @ ?ws) new = object_states g sm (w @ ?ws) cs"
      by auto
    from nd have os: "object_states g sm w (c # cs) = object_states g sm (w @ ?ws) cs"
      by (cases c) simp_all
    from step run fw os show ?thesis
      by (intro exI [of _ "writes_of ?ws @ new"]) (simp add: fresh_writes_at_draws_writes)
  qed
qed

text \<open>
  Where every draw of a list of calls has its three kinds of state set since the draw
  before and every material tag is registered, the state of every object drawn is
  complete.
\<close>

lemma object_states_complete:
  "state_set_per_draw tr se ma cs \<Longrightarrow>
   list_all (\<lambda>t. registered_material sm t \<noteq> None) (material_tags cs) \<Longrightarrow>
   (tr \<longrightarrow> ''model'' \<in> set (map fst w)) \<Longrightarrow>
   (se \<longrightarrow> ''bUseTexture'' \<in> set (map fst w)
         \<and> (''objectTexture'' \<in> set (map fst w) \<or> ''objectColor'' \<in> set (map fst w))) \<Longrightarrow>
   (ma \<longrightarrow> ''material.diffuseColor'' \<in> set (map fst w)
         \<and> ''material.specularColor'' \<in> set (map fst w)
         \<and> ''material.shininess'' \<in> set (map fst w)) \<Longrightarrow>
   list_all (\<lambda>(m, ws). state_complete (map fst ws)) (object_states g sm w cs)"
proof (induction cs arbitrary: tr se ma w)
  case Nil
  then show ?case by simp
next
  case (Cons c cs)
  show ?case
  proof (cases c)
    case (Call_SetTransformations s x y z pos)
    with Cons.prems Cons.IH [of True se ma "w @ uniforms_set g sm c"] show ?thesis by simp
  next
    case (Call_SetShaderColor r gr b a)
    with Cons.prems Cons.IH [of tr True ma "w @ uniforms_set g sm c"] show ?thesis by simp
  next
    case (Call_SetShaderTexture t)
    with Cons.prems Cons.IH [of tr True ma "w @ uniforms_set g sm c"] show ?thesis by simp
  next
    case (Call_SetShaderMaterial t)
    with Cons.prems obtain r where "registered_material sm t = Some r" by auto
    with Call_SetShaderMaterial Cons.prems Cons.IH [of tr se True "w @ uniforms_set g sm c"]
    show ?thesis by simp
  next
    case (Call_DrawMesh m)
    with Cons.prems Cons.IH [of False False False "[]"] show ?thesis
      by (simp add: state_complete_def)
  qed
qed

text \<open>With no material registered, no object's state holds a material uniform.\<close>

lemma object_states_no_material:
  "m_objectMaterials sm = [] \<Longrightarrow>
   ''material.diffuseColor'' \<notin> set (map fst w)
     \<and> ''material.specularColor'' \<notin> set (map fst w)
     \<and> ''material.shininess'' \<notin> set (map fst w) \<Longrightarrow>
   list_all (\<lambda>(m, ws). ''material.diffuseColor'' \<notin> set (map fst ws)
                       \<and> ''material.specularColor'' \<notin> set (map fst ws)
                       \<and> ''material.shininess'' \<notin> set (map fst ws))
     (object_states g sm w cs)"
proof (induction cs arbitrary: w)
  case Nil
  then show ?case by simp
next
  case (Cons c cs)
  show ?case
  proof (cases c)
    case (Call_SetTransformations s x y z pos)
    with Cons.prems Cons.IH [of "w @ uniforms_set g sm c"] show ?thesis by simp
  next
    case (Call_SetShaderColor r gr b a)
    with Cons.prems Cons.IH [of "w @ uniforms_set g sm c"] show ?thesis by simp
  next
    case (Call_SetShaderTexture t)
    with Cons.prems Cons.IH [of "w @ uniforms_set g sm c"] show ?thesis by simp
  next
    case (Call_SetShaderMaterial t)
    with Cons.prems Cons.IH [of "w @ uniforms_set g sm c"] show ?thesis
      by (simp add: registered_material_def)
  next
    case (Call_DrawMesh m)
    with Cons.prems Cons.IH [of "[]"] show ?thesis by simp
  qed
qed

lemma object_states_length:
  "length (object_states g sm w cs) = length [c \<leftarrow> cs. \<exists>m. c = Call_DrawMesh m]"
proof (induction cs arbitrary: w)
  case Nil
  then show ?case by simp
next
  case (Cons c cs)
  then show ?case by (cases c) simp_all
qed

lemma RenderScene_calls_ordered: "state_set_per_draw False False False RenderScene_calls"
  by (simp add: RenderScene_calls_def)

lemma RenderScene_calls_draws:
  "length [c \<leftarrow> RenderScene_calls. \<exists>m. c = Call_DrawMesh m] = 33"
  by (simp add: RenderScene_calls_def)

lemma RenderScene_calls_head:
  "RenderScene_calls =
     Call_SetTransformations (20, 1, 20) 0 0 0 (0, 0, 0) # Call_SetShaderTexture ''floor''
     # Call_SetShaderMaterial ''wood'' # Call_DrawMesh PlaneMesh # drop 4 RenderScene_calls"
  by (simp add: RenderScene_calls_def)

text \<open>The fourteen loads of \<open>LoadSceneTextures\<close> on a fresh scene manager give
  \<open>loaded_scene\<close>.\<close>

lemma LoadSceneTextures_loaded_scene:
  "\<exists>gl'. LoadSceneTextures rgb_image fresh_scene (fresh_gl :: mat4_expr GL) = Inr (loaded_scene, gl')"
  by (simp add: LoadSceneTextures_def scene_textures_def CreateGLTexture_def rgb_image_def
      fresh_scene_def fresh_gl_def glGenTextures_def glCall_def Let_def MAX_TEXTURES_def
      loaded_scene_def BindGLTextures_def BindGLTextures_loop.simps eval_nat_numeral)

text \<open>
  C1 as stated fails: on a scene manager with a shader attached and no material
  registered, \<open>RenderScene\<close> issues its 33 draws and no draw is preceded by a write of
  any material uniform.
\<close>

theorem RenderScene_draws_without_material:
  "(case RenderScene glm_symbolic fresh_scene blank_material fresh_gl of
      Inl e \<Rightarrow> False
    | Inr gl' \<Rightarrow>
        length (fresh_writes_at_draws [] (calls gl')) = 33
        \<and> list_all (\<lambda>(m, ws). ''material.diffuseColor'' \<notin> set (map fst ws)
                            \<and> ''material.specularColor'' \<notin> set (map fst ws)
                            \<and> ''material.shininess'' \<notin> set (map fst ws))
            (fresh_writes_at_draws [] (calls gl')))"
proof -
  have shader: "m_pShaderManager fresh_scene = Some 0"
    and cap: "m_loadedTextures fresh_scene \<le> int (length (m_textureIDs fresh_scene))"
    and none: "m_objectMaterials fresh_scene = []"
    by (simp_all add: fresh_scene_def)
  from none
  have reg: "list_all (\<lambda>t. registered_material fresh_scene t \<noteq> None
               \<or> m_objectMaterials fresh_scene = []) (material_tags RenderScene_calls)"
    by (simp add: list_all_iff)
  from exec_calls_object_states [OF shader cap reg, of glm_symbolic blank_material fresh_gl "[]"]
  obtain new where
    run: "exec_calls glm_symbolic fresh_scene blank_material RenderScene_calls fresh_gl
        = Inr (fresh_gl\<lparr>calls := calls fresh_gl @ new\<rparr>)"
    and fw: "fresh_writes_at_draws [] new
        = object_states glm_symbolic fresh_scene [] RenderScene_calls"
    by auto
  have stream: "calls (fresh_gl\<lparr>calls := calls fresh_gl @ new\<rparr>) = new"
    by (simp add: fresh_gl_def)
  have len: "length (object_states glm_symbolic fresh_scene [] RenderScene_calls) = 33"
    by (simp only: object_states_length RenderScene_calls_draws)
  have nomat: "list_all (\<lambda>(m, ws). ''material.diffuseColor'' \<notin> set (map fst ws)
                            \<and> ''material.specularColor'' \<notin> set (map fst ws)
                            \<and> ''material.shininess'' \<notin> set (map fst ws))
      (object_states glm_symbolic fresh_scene [] RenderScene_calls)"
    by (rule object_states_no_material [OF none]) simp
  from run stream fw len nomat show ?thesis
    by (simp add: RenderScene_def)
qed

text \<open>
  C1, as the code has it. The calls of \<open>RenderScene\<close> set, for every draw and since the
  draw before it, the transform, the texture or the colour, and the material. On a scene
  manager with a shader attached, the texture count within the array and every material
  tag of \<open>RenderScene\<close> registered, \<open>RenderScene\<close> runs to its end and issues 33 draws;
  the uniform writes between the draw before and each draw are exactly the state of the
  object drawn (its composed matrix, the texture flag with the slot of its texture tag
  or its colour, the three values of the first material registered under its tag), and
  they cover the model matrix, the texture or colour selection and the material.
\<close>

theorem RenderScene_draws_consume_own_state:
  "state_set_per_draw False False False RenderScene_calls
   \<and> (m_pShaderManager sm = Some p \<longrightarrow>
      m_loadedTextures sm \<le> int (length (m_textureIDs sm)) \<longrightarrow>
      list_all (\<lambda>t. registered_material sm t \<noteq> None) (material_tags RenderScene_calls) \<longrightarrow>
      (\<exists>new. RenderScene g sm uninit gl = Inr (gl\<lparr>calls := calls gl @ new\<rparr>)
          \<and> fresh_writes_at_draws [] new = object_states g sm [] RenderScene_calls
          \<and> length (fresh_writes_at_draws [] new) = 33
          \<and> list_all (\<lambda>(m, ws). state_complete (map fst ws)) (fresh_writes_at_draws [] new)))"
proof (intro conjI impI)
  show "state_set_per_draw False False False RenderScene_calls"
    by (rule RenderScene_calls_ordered)
next
  assume shader: "m_pShaderManager sm = Some p"
    and cap: "m_loadedTextures sm \<le> int (length (m_textureIDs sm))"
    and reg: "list_all (\<lambda>t. registered_material sm t \<noteq> None) (material_tags RenderScene_calls)"
  from reg
  have reg': "list_all (\<lambda>t. registered_material sm t \<noteq> None \<or> m_objectMaterials sm = [])
      (material_tags RenderScene_calls)"
    by (simp add: list_all_iff)
  from exec_calls_object_states [OF shader cap reg', of g uninit gl "[]"]
  obtain new where
    run: "exec_calls g sm uninit RenderScene_calls gl = Inr (gl\<lparr>calls := calls gl @ new\<rparr>)"
    and fw: "fresh_writes_at_draws [] new = object_states g sm [] RenderScene_calls"
    by auto
  have len: "length (object_states g sm [] RenderScene_calls) = 33"
    by (simp only: object_states_length RenderScene_calls_draws)
  have complete: "list_all (\<lambda>(m, ws). state_complete (map fst ws))
      (object_states g sm [] RenderScene_calls)"
    by (rule object_states_complete [OF RenderScene_calls_ordered reg]) simp_all
  from run fw len complete
  show "\<exists>new. RenderScene g sm uninit gl = Inr (gl\<lparr>calls := calls gl @ new\<rparr>)
          \<and> fresh_writes_at_draws [] new = object_states g sm [] RenderScene_calls
          \<and> length (fresh_writes_at_draws [] new) = 33
          \<and> list_all (\<lambda>(m, ws). state_complete (map fst ws)) (fresh_writes_at_draws [] new)"
    unfolding RenderScene_def by (intro exI [of _ new]) simp
qed

text \<open>
  At the scene manager that \<open>LoadSceneTextures\<close> and \<open>DefineObjectMaterials\<close> leave: the
  first draw, of the floor plane, follows the writes of the floor's matrix, the slot 2
  of the texture \<open>floor\<close> and the values of the material \<open>wood\<close>.
\<close>

theorem RenderScene_draws_consume_own_state_witness:
  "m_pShaderManager prepared_scene = Some 0
   \<and> m_loadedTextures prepared_scene \<le> int (length (m_textureIDs prepared_scene))
   \<and> list_all (\<lambda>t. registered_material prepared_scene t \<noteq> None)
        (material_tags RenderScene_calls)
   \<and> (\<exists>new. RenderScene glm_symbolic prepared_scene blank_material fresh_gl
               = Inr (fresh_gl\<lparr>calls := calls fresh_gl @ new\<rparr>)
          \<and> fresh_writes_at_draws [] new
               = object_states glm_symbolic prepared_scene [] RenderScene_calls
          \<and> length (fresh_writes_at_draws [] new) = 33
          \<and> list_all (\<lambda>(m, ws). state_complete (map fst ws)) (fresh_writes_at_draws [] new)
          \<and> hd (fresh_writes_at_draws [] new) =
              (PlaneMesh,
               [(''model'',
                 Mat4Value (Compose_spec glm_symbolic (20, 1, 20) (0, 0, 0) (0, 0, 0))),
                (''bUseTexture'', IntValue 1),
                (''objectTexture'', Sampler2DValue 2),
                (''material.diffuseColor'', Vec3Value (0.3, 0.3, 0.3)),
                (''material.specularColor'', Vec3Value (0.4, 0.4, 0.4)),
                (''material.shininess'', FloatValue 40)]))"
proof -
  have h1: "m_pShaderManager prepared_scene = Some 0"
    by (simp add: prepared_scene_def loaded_scene_def fresh_scene_def DefineObjectMaterials_def)
  have h2: "m_loadedTextures prepared_scene \<le> int (length (m_textureIDs prepared_scene))"
    by (simp add: prepared_scene_def loaded_scene_def fresh_scene_def DefineObjectMaterials_def)
  have h3: "list_all (\<lambda>t. registered_material prepared_scene t \<noteq> None)
      (material_tags RenderScene_calls)"
    by (simp add: RenderScene_calls_def prepared_scene_def loaded_scene_def fresh_scene_def
        DefineObjectMaterials_def registered_material_def)
  have floor: "hd (object_states glm_symbolic prepared_scene [] RenderScene_calls) =
      (PlaneMesh,
       [(''model'', Mat4Value (Compose_spec glm_symbolic (20, 1, 20) (0, 0, 0) (0, 0, 0))),
        (''bUseTexture'', IntValue 1),
        (''objectTexture'', Sampler2DValue 2),
        (''material.diffuseColor'', Vec3Value (0.3, 0.3, 0.3)),
        (''material.specularColor'', Vec3Value (0.4, 0.4, 0.4)),
        (''material.shininess'', FloatValue 40)])"
    by (subst RenderScene_calls_head)
      (simp add: prepared_scene_def loaded_scene_def fresh_scene_def DefineObjectMaterials_def
        texture_slot_def registered_material_def)
  from RenderScene_draws_consume_own_state
    [of prepared_scene 0 glm_symbolic blank_material fresh_gl] h1 h2 h3
  obtain new where
    "RenderScene glm_symbolic prepared_scene blank_material fresh_gl
       = Inr (fresh_gl\<lparr>calls := calls fresh_gl @ new\<rparr>)"
    "fresh_writes_at_draws [] new = object_states glm_symbolic prepared_scene [] RenderScene_calls"
    "length (fresh_writes_at_draws [] new) = 33"
    "list_all (\<lambda>(m, ws). state_complete (map fst ws)) (fresh_writes_at_draws [] new)"
    by blast
  with floor h1 h2 h3 show ?thesis
    by (intro conjI exI [of _ new]) simp_all
qed

end
